theory Spec2Isabelle
  imports Main "HOL-Library.Word"
begin

unbundle bit_operations_syntax

section \<open>The UDS service endpoint of libpdx\<close>

text \<open>
  A shallow embedding of \<^verbatim>\<open>libs/vr/libpdx_uds/service_endpoint.cpp\<close>: the per-message
  state with its reference tables, the channel table of the endpoint, and the receive and
  reply paths. Every system call and every helper of \<^verbatim>\<open>uds/ipc_helper\<close> is an input of the
  function that makes it (a record of outcomes), and every function returns the list of
  the calls it made, in order, beside its result and the updated state.
\<close>

subsection \<open>Status values and error numbers\<close>

text \<open>
  Modelled from the spec: \<^verbatim>\<open>pdx::Status<T>\<close> (pdx/status.h is not among the sources) is either
  a value or an error number; a status built from a value is a success whatever the value
  is. \<open>ErrorStatus e\<close> stands for a status whose error number \<open>e\<close> is not zero.
\<close>

datatype 'a Status = ErrorStatus int | Ok 'a

fun ok :: "'a Status \<Rightarrow> bool" where
  "ok (Ok _) = True"
| "ok (ErrorStatus _) = False"

text \<open>The error numbers of Linux that the file names.\<close>

definition EBADF :: int where "EBADF = 9"
definition EFAULT :: int where "EFAULT = 14"
definition EINVAL :: int where "EINVAL = 22"
definition ESHUTDOWN :: int where "ESHUTDOWN = 108"
definition ETIMEDOUT :: int where "ETIMEDOUT = 110"

subsection \<open>Handles\<close>

text \<open>
  Modelled from the spec: the handle wrappers (pdx/file_handle.h, pdx/channel_handle.h) are
  not among the sources. A file handle holds a descriptor number; it is valid when the
  number is not negative, a negative number is a sentinel or an error it carries. A
  default-constructed handle is empty, and moving out of a handle leaves it empty. The
  owning and the borrowing handle differ in who closes the descriptor, which the table
  and the reference lists do not depend on.
\<close>

datatype Handle = Handle (Get: int)

type_synonym LocalHandle = Handle
type_synonym BorrowedHandle = Handle

definition kEmptyFileHandle :: int where "kEmptyFileHandle = - 1"

definition EmptyHandle :: Handle where "EmptyHandle = Handle kEmptyFileHandle"

definition IsValid :: "Handle \<Rightarrow> bool" where "IsValid h \<longleftrightarrow> 0 \<le> Get h"

text \<open>
  A local channel handle is a pointer to the channel manager that keeps its descriptors
  (null for a sentinel) and a value; the default one has no manager and the empty value.
\<close>

datatype ChannelManagerPtr = NullManager | TheChannelManager

record LocalChannelHandle =
  manager :: ChannelManagerPtr
  handle_value :: int

definition kEmptyHandle :: int where "kEmptyHandle = - 1"

definition EmptyChannelHandle :: LocalChannelHandle where
  "EmptyChannelHandle = \<lparr>manager = NullManager, handle_value = kEmptyHandle\<rparr>"

text \<open>
  Modelled from the spec: \<^verbatim>\<open>ChannelManager::CreateHandle\<close> (uds/channel_manager.h is not among
  the sources) keeps the two descriptors of a channel and hands out a handle whose value is
  the data descriptor.
\<close>

definition CreateHandle :: "LocalHandle \<Rightarrow> LocalHandle \<Rightarrow> LocalChannelHandle" where
  "CreateHandle data event = \<lparr>manager = TheChannelManager, handle_value = Get data\<rparr>"

subsection \<open>Wire headers and the per-message state\<close>

type_synonym byte = "8 word"

record ChannelInfo =
  ci_data_fd :: Handle
  ci_event_fd :: Handle

record ucred =
  cred_pid :: int
  cred_uid :: int
  cred_gid :: int

record RequestHeader =
  rq_op :: int
  rq_cred :: ucred
  rq_send_len :: nat
  rq_max_recv_len :: nat
  rq_file_descriptors :: "LocalHandle list"
  rq_channels :: "ChannelInfo list"
  rq_impulse_payload :: "byte list"
  rq_is_impulse :: bool

record ResponseHeader =
  rs_ret_code :: int
  rs_recv_len :: nat
  rs_file_descriptors :: "BorrowedHandle list"
  rs_channels :: "ChannelInfo list"

record MessageState =
  request :: RequestHeader
  response :: ResponseHeader
  sockets_to_close :: "LocalHandle list"
  request_data :: "byte list"
  request_data_read_pos :: nat
  response_data :: "byte list"

definition empty_request :: RequestHeader where
  "empty_request = \<lparr>rq_op = 0, rq_cred = \<lparr>cred_pid = 0, cred_uid = 0, cred_gid = 0\<rparr>,
     rq_send_len = 0, rq_max_recv_len = 0, rq_file_descriptors = [], rq_channels = [],
     rq_impulse_payload = replicate 32 0, rq_is_impulse = False\<rparr>"

definition empty_response :: ResponseHeader where
  "empty_response = \<lparr>rs_ret_code = 0, rs_recv_len = 0, rs_file_descriptors = [],
     rs_channels = []\<rparr>"

definition AllocateMessageState :: MessageState where
  "AllocateMessageState = \<lparr>request = empty_request, response = empty_response,
     sockets_to_close = [], request_data = [], request_data_read_pos = 0,
     response_data = []\<rparr>"

text \<open>
  \<^verbatim>\<open>MessageState::GetLocalFileHandle(index, handle)\<close>: the boolean result, the handle written
  through the pointer (the handle it held before when nothing is written) and the state.
  The handle of the list is moved from, which leaves the empty handle in its place.
\<close>

definition GetLocalFileHandle ::
  "int \<Rightarrow> LocalHandle \<Rightarrow> MessageState \<Rightarrow> bool \<times> LocalHandle \<times> MessageState" where
  "GetLocalFileHandle index handle st =
     (if index < 0 then (True, Handle index, st)
      else if nat index < length (rq_file_descriptors (request st)) then
        (True, rq_file_descriptors (request st) ! nat index,
         st\<lparr>request := (request st)\<lparr>rq_file_descriptors :=
           (rq_file_descriptors (request st))[nat index := EmptyHandle]\<rparr>\<rparr>)
      else (False, handle, st))"

definition GetLocalChannelHandle ::
  "int \<Rightarrow> LocalChannelHandle \<Rightarrow> MessageState \<Rightarrow> bool \<times> LocalChannelHandle \<times> MessageState"
  where
  "GetLocalChannelHandle index handle st =
     (if index < 0 then (True, \<lparr>manager = NullManager, handle_value = index\<rparr>, st)
      else if nat index < length (rq_channels (request st)) then
        (let channel_info = rq_channels (request st) ! nat index in
         (True, CreateHandle (ci_data_fd channel_info) (ci_event_fd channel_info),
          st\<lparr>request := (request st)\<lparr>rq_channels :=
            (rq_channels (request st))[nat index :=
              \<lparr>ci_data_fd = EmptyHandle, ci_event_fd = EmptyHandle\<rparr>]\<rparr>\<rparr>))
      else (False, handle, st))"

text \<open>
  \<^verbatim>\<open>MessageState::PushFileHandle\<close>, and the \<^verbatim>\<open>PushChannelHandle\<close> that takes the two
  descriptors of a channel.
\<close>

definition MessageState_PushFileHandle ::
  "BorrowedHandle \<Rightarrow> MessageState \<Rightarrow> int Status \<times> MessageState" where
  "MessageState_PushFileHandle handle st =
     (if \<not> IsValid handle then (Ok (Get handle), st)
      else
        (let fds = rs_file_descriptors (response st) @ [handle] in
         (Ok (int (length fds) - 1),
          st\<lparr>response := (response st)\<lparr>rs_file_descriptors := fds\<rparr>\<rparr>)))"

definition MessageState_PushChannelHandle ::
  "BorrowedHandle \<Rightarrow> BorrowedHandle \<Rightarrow> MessageState \<Rightarrow> int Status \<times> MessageState" where
  "MessageState_PushChannelHandle data_fd event_fd st =
     (if \<not> IsValid data_fd \<or> \<not> IsValid event_fd then (ErrorStatus EINVAL, st)
      else
        (let chans = rs_channels (response st) @
               [\<lparr>ci_data_fd = data_fd, ci_event_fd = event_fd\<rparr>] in
         (Ok (int (length chans) - 1),
          st\<lparr>response := (response st)\<lparr>rs_channels := chans\<rparr>\<rparr>)))"

subsection \<open>Messages\<close>

text \<open>
  Modelled from the spec: \<^verbatim>\<open>MessageInfo\<close>, \<^verbatim>\<open>Message\<close> and the reserved numbers (pdx/service.h
  and the protocol headers are not among the sources). A message built from an info block
  owns a fresh per-message state. Impulses share one reserved message id; the two channel
  opcodes are reserved and distinct.
\<close>

type_synonym ChannelPtr = "nat option"
type_synonym ServicePtr = "nat option"

record MessageInfo =
  pid :: int
  tid :: int
  cid :: int
  mid :: int
  euid :: int
  egid :: int
  op :: int
  flags :: int
  service :: ServicePtr
  channel :: ChannelPtr
  send_len :: nat
  recv_len :: nat
  fd_count :: nat
  impulse :: "byte list"

record Message =
  info :: MessageInfo
  state :: MessageState

definition IMPULSE_MESSAGE_ID :: int where "IMPULSE_MESSAGE_ID = - 1"
definition CHANNEL_OPEN :: int where "CHANNEL_OPEN = - 1"
definition CHANNEL_CLOSE :: int where "CHANNEL_CLOSE = - 2"

definition new_Message :: "MessageInfo \<Rightarrow> Message" where
  "new_Message i = \<lparr>info = i, state = AllocateMessageState\<rparr>"

text \<open>\<^verbatim>\<open>Endpoint::GetFileHandle\<close> and \<^verbatim>\<open>Endpoint::GetChannelHandle\<close> drop the boolean result.\<close>

definition GetFileHandle :: "Message \<Rightarrow> int \<Rightarrow> LocalHandle \<times> Message" where
  "GetFileHandle message ref =
     (case GetLocalFileHandle ref EmptyHandle (state message) of
        (_, handle, st) \<Rightarrow> (handle, message\<lparr>state := st\<rparr>))"

definition GetChannelHandle :: "Message \<Rightarrow> int \<Rightarrow> LocalChannelHandle \<times> Message" where
  "GetChannelHandle message ref =
     (case GetLocalChannelHandle ref EmptyChannelHandle (state message) of
        (_, handle, st) \<Rightarrow> (handle, message\<lparr>state := st\<rparr>))"

subsection \<open>The endpoint and its channel table\<close>

text \<open>
  Modelled from the spec: the members of \<^verbatim>\<open>Endpoint\<close> and of \<^verbatim>\<open>ChannelData\<close> are declared in
  uds/service_endpoint.h, which is not among the sources. A channel owns its socket and an
  event set, of which the table code reads the event descriptor only, and borrows the
  service's channel state. The endpoint keeps the forward map \<open>channels\<close> from channel id
  to channel, the reverse map \<open>channel_fd_to_id\<close> from socket descriptor to channel id,
  the rolling counter \<open>last_channel_id\<close> (a 32-bit signed integer, here an \<open>int\<close> with
  the wrap-around of the source written out) and the counter of message ids (32 bits,
  unsigned).
\<close>

record ChannelData =
  data_fd :: LocalHandle
  event_fd :: LocalHandle
  channel_state :: ChannelPtr

record Endpoint =
  socket_fd :: LocalHandle
  cancel_event_fd :: LocalHandle
  epoll_fd :: LocalHandle
  is_blocking :: bool
  channels :: "int \<rightharpoonup> ChannelData"
  channel_fd_to_id :: "int \<rightharpoonup> int"
  last_channel_id :: int
  endpoint_service :: ServicePtr
  next_message_id :: "32 word"

definition INT32_MAX :: int where "INT32_MAX = 2147483647"

text \<open>
  The calls a function makes outside the endpoint: the system calls, and the helpers of
  uds/ipc_helper that read and write a socket. Each is logged with the descriptor it is
  made on.
\<close>

datatype call =
    EpollCtlAdd int
  | EpollCtlMod int
  | EpollCtlDel int
  | EpollWait
  | Accept4 int
  | SetSockOptPassCred int
  | SocketPair
  | ReceiveHeader int
  | ReceivePayload int nat
  | SendHeader int ResponseHeader
  | SendPayload int "byte list"

text \<open>\<^verbatim>\<open>std::map::emplace\<close> inserts only when the key is absent.\<close>

definition emplace :: "('k \<rightharpoonup> 'v) \<Rightarrow> 'k \<Rightarrow> 'v \<Rightarrow> ('k \<rightharpoonup> 'v)" where
  "emplace m k v = (if m k = None then m(k \<mapsto> v) else m)"

text \<open>
  The step of the rolling counter, \<^verbatim>\<open>if (last_channel_id_++ == max) last_channel_id_ = 1\<close>:
  the increment at the maximum is overwritten by 1 at once.
\<close>

definition next_channel_id :: "int \<Rightarrow> int" where
  "next_channel_id last_id = (if last_id = INT32_MAX then 1 else last_id + 1)"

text \<open>
  The loop of \<^verbatim>\<open>OnNewChannelLocked\<close>. It has no bound: with every id from 1 to the maximum
  in the table it runs forever, which is the value \<open>None\<close> here.
\<close>

partial_function (option) OnNewChannelLocked_loop ::
  "ChannelData \<Rightarrow> Endpoint \<Rightarrow> ((int \<times> ChannelData) \<times> Endpoint) option" where
  "OnNewChannelLocked_loop channel_data ep =
     (if channels ep (next_channel_id (last_channel_id ep)) = None then
        Some
          ((next_channel_id (last_channel_id ep), channel_data),
           ep\<lparr>last_channel_id := next_channel_id (last_channel_id ep),
              channel_fd_to_id := emplace (channel_fd_to_id ep) (Get (data_fd channel_data))
                (next_channel_id (last_channel_id ep)),
              channels := (channels ep)
                (next_channel_id (last_channel_id ep) \<mapsto> channel_data)\<rparr>)
      else OnNewChannelLocked_loop channel_data
             (ep\<lparr>last_channel_id := next_channel_id (last_channel_id ep)\<rparr>))"

text \<open>
  The endpoint once the loop has found the id \<open>i\<close> free and has inserted the channel
  under it.
\<close>

definition registered :: "ChannelData \<Rightarrow> int \<Rightarrow> Endpoint \<Rightarrow> Endpoint" where
  "registered channel_data i ep =
     ep\<lparr>last_channel_id := i,
        channel_fd_to_id := emplace (channel_fd_to_id ep) (Get (data_fd channel_data)) i,
        channels := (channels ep)(i \<mapsto> channel_data)\<rparr>"

text \<open>
  What \<^verbatim>\<open>OnNewChannelLocked\<close> gets from outside: the outcome of adding the socket to the
  epoll set, and the event descriptor that the event set of the new channel creates.
\<close>

record register_env =
  epoll_add_result :: "unit Status"
  new_event_fd :: LocalHandle

definition OnNewChannelLocked ::
  "register_env \<Rightarrow> LocalHandle \<Rightarrow> ChannelPtr \<Rightarrow> Endpoint
     \<Rightarrow> ((int \<times> ChannelData) Status \<times> Endpoint \<times> call list) option" where
  "OnNewChannelLocked env channel_fd channel_state' ep =
     (case epoll_add_result env of
        ErrorStatus e \<Rightarrow> Some (ErrorStatus e, ep, [EpollCtlAdd (Get channel_fd)])
      | Ok _ \<Rightarrow>
          (case OnNewChannelLocked_loop
                  \<lparr>data_fd = channel_fd, event_fd = new_event_fd env,
                   channel_state = channel_state'\<rparr> ep of
             None \<Rightarrow> None
           | Some (r, ep') \<Rightarrow> Some (Ok r, ep', [EpollCtlAdd (Get channel_fd)])))"

definition OnNewChannel ::
  "register_env \<Rightarrow> LocalHandle \<Rightarrow> Endpoint \<Rightarrow> (unit Status \<times> Endpoint \<times> call list) option"
  where
  "OnNewChannel env channel_fd ep =
     (case OnNewChannelLocked env channel_fd None ep of
        None \<Rightarrow> None
      | Some (ErrorStatus e, ep', cs) \<Rightarrow> Some (ErrorStatus e, ep', cs)
      | Some (Ok _, ep', cs) \<Rightarrow> Some (Ok (), ep', cs))"

text \<open>
  \<^verbatim>\<open>CloseChannelLocked\<close>, given the outcome of removing the socket from the epoll set: both
  map entries are erased whatever that outcome is.
\<close>

definition CloseChannelLocked ::
  "unit Status \<Rightarrow> int \<Rightarrow> Endpoint \<Rightarrow> unit Status \<times> Endpoint \<times> call list" where
  "CloseChannelLocked epoll_del_result channel_id ep =
     (case channels ep channel_id of
        None \<Rightarrow> (ErrorStatus EINVAL, ep, [])
      | Some iter \<Rightarrow>
          (let channel_fd = Get (data_fd iter) in
           (epoll_del_result,
            ep\<lparr>channel_fd_to_id := (channel_fd_to_id ep)(channel_fd := None),
               channels := (channels ep)(channel_id := None)\<rparr>,
            [EpollCtlDel channel_fd])))"

definition CloseChannel ::
  "unit Status \<Rightarrow> int \<Rightarrow> Endpoint \<Rightarrow> unit Status \<times> Endpoint \<times> call list" where
  "CloseChannel epoll_del_result channel_id ep =
     CloseChannelLocked epoll_del_result channel_id ep"

definition ReenableEpollEvent :: "unit Status \<Rightarrow> BorrowedHandle \<Rightarrow> unit Status \<times> call list"
  where
  "ReenableEpollEvent epoll_mod_result fd = (epoll_mod_result, [EpollCtlMod (Get fd)])"

text \<open>The lookups: by id, and by socket descriptor.\<close>

definition GetChannelState :: "int \<Rightarrow> Endpoint \<Rightarrow> ChannelPtr" where
  "GetChannelState channel_id ep =
     (case channels ep channel_id of None \<Rightarrow> None | Some cd \<Rightarrow> channel_state cd)"

definition GetChannelSocketFd :: "int \<Rightarrow> Endpoint \<Rightarrow> BorrowedHandle" where
  "GetChannelSocketFd channel_id ep =
     (case channels ep channel_id of None \<Rightarrow> EmptyHandle | Some cd \<Rightarrow> data_fd cd)"

definition GetChannelEventFd :: "int \<Rightarrow> Endpoint \<Rightarrow> BorrowedHandle" where
  "GetChannelEventFd channel_id ep =
     (case channels ep channel_id of None \<Rightarrow> EmptyHandle | Some cd \<Rightarrow> event_fd cd)"

definition GetChannelId :: "BorrowedHandle \<Rightarrow> Endpoint \<Rightarrow> int" where
  "GetChannelId channel_fd ep =
     (case channel_fd_to_id ep (Get channel_fd) of None \<Rightarrow> - 1 | Some i \<Rightarrow> i)"

text \<open>
  Modelled from the spec: \<^verbatim>\<open>GetNextAvailableMessageId\<close> is defined in the missing header;
  message ids increase by one per message of the endpoint.
\<close>

definition GetNextAvailableMessageId :: "Endpoint \<Rightarrow> int \<times> Endpoint" where
  "GetNextAvailableMessageId ep =
     (sint (next_message_id ep), ep\<lparr>next_message_id := next_message_id ep + 1\<rparr>)"

subsection \<open>Receiving a message\<close>

text \<open>
  \<^verbatim>\<open>BuildCloseMessage\<close>. The source leaves the impulse bytes of the info block unset; they are
  zero here.
\<close>

definition BuildCloseMessage :: "int \<Rightarrow> Endpoint \<Rightarrow> Message \<times> Endpoint" where
  "BuildCloseMessage channel_id ep =
     (case GetNextAvailableMessageId ep of
        (new_mid, ep') \<Rightarrow>
          (new_Message
             \<lparr>pid = - 1, tid = - 1, cid = channel_id, mid = new_mid, euid = - 1, egid = - 1,
              op = CHANNEL_CLOSE, flags = 0, service = endpoint_service ep',
              channel = GetChannelState channel_id ep', send_len = 0, recv_len = 0,
              fd_count = 0, impulse = replicate 32 0\<rparr>,
           ep'))"

text \<open>
  What \<^verbatim>\<open>ReceiveMessageForChannel\<close> gets from outside: the outcome of reading the header
  (the header read, or the error), of reading the payload, of re-arming the socket in the
  epoll set, and of removing it from the epoll set when the channel is closed.
\<close>

record receive_env =
  header_result :: "RequestHeader Status"
  payload_result :: "byte list Status"
  reenable_result :: "unit Status"
  close_result :: "unit Status"

text \<open>The block that follows a failed status, which the source has twice.\<close>

definition ReceiveMessageForChannel_failed ::
  "unit Status \<Rightarrow> int \<Rightarrow> int \<Rightarrow> Message \<Rightarrow> Endpoint
     \<Rightarrow> unit Status \<times> Message \<times> Endpoint \<times> call list" where
  "ReceiveMessageForChannel_failed epoll_del_result e channel_id message ep =
     (if e = ESHUTDOWN then
        (case BuildCloseMessage channel_id ep of (m, ep') \<Rightarrow> (Ok (), m, ep', []))
      else
        (case CloseChannel epoll_del_result channel_id ep of
           (_, ep', cs) \<Rightarrow> (ErrorStatus e, message, ep', cs)))"

definition ReceiveMessageForChannel ::
  "receive_env \<Rightarrow> BorrowedHandle \<Rightarrow> Message \<Rightarrow> Endpoint
     \<Rightarrow> unit Status \<times> Message \<times> Endpoint \<times> call list" where
  "ReceiveMessageForChannel env channel_fd message ep =
     (let channel_id = GetChannelId channel_fd ep in
      case header_result env of
        ErrorStatus e \<Rightarrow>
          (case ReceiveMessageForChannel_failed (close_result env) e channel_id message ep of
             (st, m, ep', cs) \<Rightarrow> (st, m, ep', ReceiveHeader (Get channel_fd) # cs))
      | Ok req \<Rightarrow>
          (case (if rq_is_impulse req then (IMPULSE_MESSAGE_ID, ep)
                 else GetNextAvailableMessageId ep) of
             (new_mid, ep1) \<Rightarrow>
               (let message1 = (new_Message
                      \<lparr>pid = cred_pid (rq_cred req), tid = - 1, cid = channel_id,
                       mid = new_mid, euid = cred_uid (rq_cred req),
                       egid = cred_gid (rq_cred req), op = rq_op req, flags = 0,
                       service = endpoint_service ep1,
                       channel = GetChannelState channel_id ep1,
                       send_len = rq_send_len req, recv_len = rq_max_recv_len req,
                       fd_count = length (rq_file_descriptors req),
                       impulse = rq_impulse_payload req\<rparr>)
                      \<lparr>state := AllocateMessageState\<lparr>request := req\<rparr>\<rparr>;
                    n = rq_send_len req;
                    reads = (0 < n \<and> \<not> rq_is_impulse req);
                    status1 = (if reads then
                                 (case payload_result env of
                                    ErrorStatus e \<Rightarrow> ErrorStatus e
                                  | Ok _ \<Rightarrow> Ok ())
                               else Ok ());
                    message2 = (if reads then
                                  message1\<lparr>state := (state message1)\<lparr>request_data :=
                                    (case payload_result env of
                                       ErrorStatus _ \<Rightarrow> replicate n 0
                                     | Ok bytes \<Rightarrow> take n (bytes @ replicate n 0))\<rparr>\<rparr>
                                else message1);
                    calls1 = ReceiveHeader (Get channel_fd) #
                      (if reads then [ReceivePayload (Get channel_fd) n] else []);
                    rearm = (ok status1 \<and> rq_is_impulse req);
                    status2 = (if rearm then fst (ReenableEpollEvent (reenable_result env) channel_fd)
                               else status1);
                    calls2 = calls1 @
                      (if rearm then snd (ReenableEpollEvent (reenable_result env) channel_fd)
                       else [])
                in case status2 of
                     ErrorStatus e \<Rightarrow>
                       (case ReceiveMessageForChannel_failed (close_result env) e channel_id
                               message2 ep1 of
                          (st, m, ep', cs) \<Rightarrow> (st, m, ep', calls2 @ cs))
                   | Ok _ \<Rightarrow> (Ok (), message2, ep1, calls2))))"

text \<open>
  \<^verbatim>\<open>AcceptConnection\<close>, given the outcome of \<^verbatim>\<open>accept4\<close> (the new descriptor, or the
  error), of enabling \<^verbatim>\<open>SO_PASSCRED\<close> on it, and what the registration and the first read
  get.
\<close>

record accept_env =
  accept4_result :: "int Status"
  passcred_result :: "unit Status"
  accept_register :: register_env
  accept_receive :: receive_env

definition AcceptConnection ::
  "accept_env \<Rightarrow> Message \<Rightarrow> Endpoint
     \<Rightarrow> (unit Status \<times> Message \<times> Endpoint \<times> call list) option" where
  "AcceptConnection env message ep =
     (case accept4_result env of
        ErrorStatus e \<Rightarrow> Some (ErrorStatus e, message, ep, [Accept4 (Get (socket_fd ep))])
      | Ok new_fd \<Rightarrow>
          (case passcred_result env of
             ErrorStatus e \<Rightarrow>
               Some (ErrorStatus e, message, ep,
                     [Accept4 (Get (socket_fd ep)), SetSockOptPassCred new_fd])
           | Ok _ \<Rightarrow>
               (case OnNewChannel (accept_register env) (Handle new_fd) ep of
                  None \<Rightarrow> None
                | Some (ErrorStatus e, ep1, cs) \<Rightarrow>
                    Some (ErrorStatus e, message, ep1,
                          [Accept4 (Get (socket_fd ep)), SetSockOptPassCred new_fd] @ cs)
                | Some (Ok _, ep1, cs) \<Rightarrow>
                    (case ReceiveMessageForChannel (accept_receive env) (Handle new_fd)
                            message ep1 of
                       (st, m, ep2, cs2) \<Rightarrow>
                         Some (st, m, ep2,
                               [Accept4 (Get (socket_fd ep)), SetSockOptPassCred new_fd]
                                 @ cs @ cs2)))))"

text \<open>
  \<^verbatim>\<open>MessageReceive\<close>, given the outcome of \<^verbatim>\<open>epoll_wait\<close> for one event (after the retries
  on \<^verbatim>\<open>EINTR\<close>): an error, no event, or the descriptor and the event mask of the event.
\<close>

datatype epoll_wait_result = WaitFailed int | WaitNoEvent | WaitEvent int "32 word"

record wait_env =
  wait_result :: epoll_wait_result
  wait_accept :: accept_env
  listen_reenable_result :: "unit Status"
  wait_receive :: receive_env

definition EPOLLHUP :: "32 word" where "EPOLLHUP = 0x010"
definition EPOLLRDHUP :: "32 word" where "EPOLLRDHUP = 0x2000"

definition MessageReceive ::
  "wait_env \<Rightarrow> Message \<Rightarrow> Endpoint
     \<Rightarrow> (unit Status \<times> Message \<times> Endpoint \<times> call list) option" where
  "MessageReceive env message ep =
     (case wait_result env of
        WaitFailed e \<Rightarrow> Some (ErrorStatus e, message, ep, [EpollWait])
      | WaitNoEvent \<Rightarrow> Some (ErrorStatus ETIMEDOUT, message, ep, [EpollWait])
      | WaitEvent ready_fd events \<Rightarrow>
          if ready_fd = Get (cancel_event_fd ep) then
            Some (ErrorStatus ESHUTDOWN, message, ep, [EpollWait])
          else if ready_fd = Get (socket_fd ep) then
            (case AcceptConnection (wait_accept env) message ep of
               None \<Rightarrow> None
             | Some (ErrorStatus e, m, ep1, cs) \<Rightarrow> Some (ErrorStatus e, m, ep1, EpollWait # cs)
             | Some (Ok _, m, ep1, cs) \<Rightarrow>
                 (case ReenableEpollEvent (listen_reenable_result env) (socket_fd ep1) of
                    (st, cs2) \<Rightarrow> Some (st, m, ep1, EpollWait # cs @ cs2)))
          else if events AND (EPOLLRDHUP OR EPOLLHUP) \<noteq> 0 then
            (case BuildCloseMessage (GetChannelId (Handle ready_fd) ep) ep of
               (m, ep1) \<Rightarrow> Some (Ok (), m, ep1, [EpollWait]))
          else
            (case ReceiveMessageForChannel (wait_receive env) (Handle ready_fd) message ep of
               (st, m, ep1, cs) \<Rightarrow> Some (st, m, ep1, EpollWait # cs)))"

subsection \<open>Replying to a message\<close>

text \<open>
  What \<^verbatim>\<open>MessageReply\<close> gets from outside: the outcome of sending the response header, of
  sending the payload, of re-arming the socket, and of removing it from the epoll set when
  the reply closes the channel.
\<close>

record reply_env =
  send_header_result :: "unit Status"
  send_payload_result :: "unit Status"
  reply_reenable_result :: "unit Status"
  reply_close_result :: "unit Status"

text \<open>The part of \<^verbatim>\<open>MessageReply\<close> after the switch: the response is completed and sent.\<close>

definition MessageReply_send ::
  "reply_env \<Rightarrow> BorrowedHandle \<Rightarrow> Message \<Rightarrow> int \<Rightarrow> unit Status \<times> Message \<times> call list" where
  "MessageReply_send env channel_socket message return_code =
     (let st = (state message)\<lparr>response := (response (state message))
                 \<lparr>rs_ret_code := return_code,
                  rs_recv_len := length (response_data (state message))\<rparr>\<rparr>;
          status = send_header_result env;
          more = (ok status \<and> response_data st \<noteq> []);
          status1 = (if more then send_payload_result env else status);
          calls1 = SendHeader (Get channel_socket) (response st) #
            (if more then [SendPayload (Get channel_socket) (response_data st)] else []);
          status2 = (if ok status1
                     then fst (ReenableEpollEvent (reply_reenable_result env) channel_socket)
                     else status1);
          calls2 = calls1 @
            (if ok status1
             then snd (ReenableEpollEvent (reply_reenable_result env) channel_socket)
             else [])
      in (status2, message\<lparr>state := st\<rparr>, calls2))"

definition MessageReply ::
  "reply_env \<Rightarrow> Message \<Rightarrow> int \<Rightarrow> Endpoint
     \<Rightarrow> unit Status \<times> Message \<times> Endpoint \<times> call list" where
  "MessageReply env message return_code ep =
     (let channel_id = cid (info message);
          channel_socket = GetChannelSocketFd channel_id ep
      in if \<not> IsValid channel_socket then (ErrorStatus EBADF, message, ep, [])
         else if op (info message) = CHANNEL_CLOSE then
           (case CloseChannel (reply_close_result env) channel_id ep of
              (st, ep', cs) \<Rightarrow> (st, message, ep', cs))
         else if op (info message) = CHANNEL_OPEN then
           (if return_code < 0 then
              (case CloseChannel (reply_close_result env) channel_id ep of
                 (st, ep', cs) \<Rightarrow> (st, message, ep', cs))
            else
              (case MessageState_PushFileHandle (GetChannelEventFd channel_id ep)
                      (state message) of
                 (push_status, st1) \<Rightarrow>
                   (let message1 = message\<lparr>state := st1\<lparr>response_data := []\<rparr>\<rparr>
                    in case push_status of
                         ErrorStatus e \<Rightarrow> (ErrorStatus e, message1, ep, [])
                       | Ok ref \<Rightarrow>
                           (case MessageReply_send env channel_socket message1 ref of
                              (st, m, cs) \<Rightarrow> (st, m, ep, cs)))))
         else
           (case MessageReply_send env channel_socket message return_code of
              (st, m, cs) \<Rightarrow> (st, m, ep, cs)))"

subsection \<open>Pushing a new channel\<close>

text \<open>
  \<^verbatim>\<open>PushChannel\<close>, given the outcome of \<^verbatim>\<open>socketpair\<close> (the two descriptors, or the error)
  and of enabling \<^verbatim>\<open>SO_PASSCRED\<close> on the local one. The results are the status with the
  reference, the channel id written through the pointer (if any), the message, the
  endpoint and the calls.
\<close>

record push_env =
  socketpair_result :: "(int \<times> int) Status"
  push_passcred_result :: "unit Status"
  push_register :: register_env

definition PushChannel ::
  "push_env \<Rightarrow> Message \<Rightarrow> ChannelPtr \<Rightarrow> Endpoint
     \<Rightarrow> (int Status \<times> int option \<times> Message \<times> Endpoint \<times> call list) option" where
  "PushChannel env message chan ep =
     (case socketpair_result env of
        ErrorStatus e \<Rightarrow> Some (ErrorStatus e, None, message, ep, [SocketPair])
      | Ok (local_socket, remote_socket) \<Rightarrow>
          (case push_passcred_result env of
             ErrorStatus e \<Rightarrow>
               Some (ErrorStatus e, None, message, ep,
                     [SocketPair, SetSockOptPassCred local_socket])
           | Ok _ \<Rightarrow>
               (case OnNewChannelLocked (push_register env) (Handle local_socket) chan ep of
                  None \<Rightarrow> None
                | Some (ErrorStatus e, ep1, cs) \<Rightarrow>
                    Some (ErrorStatus e, None, message, ep1,
                          [SocketPair, SetSockOptPassCred local_socket] @ cs)
                | Some (Ok (new_id, channel_data), ep1, cs) \<Rightarrow>
                    (case MessageState_PushChannelHandle (Handle remote_socket)
                            (event_fd channel_data) (state message) of
                       (ErrorStatus e, st1) \<Rightarrow>
                         Some (ErrorStatus e, Some new_id, message\<lparr>state := st1\<rparr>, ep1,
                               [SocketPair, SetSockOptPassCred local_socket] @ cs)
                     | (Ok ref, st1) \<Rightarrow>
                         Some (Ok ref, Some new_id,
                               message\<lparr>state := st1\<lparr>sockets_to_close :=
                                 sockets_to_close st1 @ [Handle remote_socket]\<rparr>\<rparr>,
                               ep1,
                               [SocketPair, SetSockOptPassCred local_socket] @ cs)))))"

subsection \<open>Sequences of operations on the channel table\<close>

text \<open>
  The operations that register or close channels, each with what it gets from outside, and
  the endpoint after a sequence of them (\<open>None\<close> when a registration never returns).
\<close>

datatype table_op =
    DoOnNewChannel register_env LocalHandle
  | DoCloseChannel "unit Status" int
  | DoAcceptConnection accept_env Message
  | DoPushChannel push_env Message ChannelPtr
  | DoMessageReceive wait_env Message
  | DoMessageReply reply_env Message int

fun apply_op :: "table_op \<Rightarrow> Endpoint \<Rightarrow> Endpoint option" where
  "apply_op (DoOnNewChannel env fd) ep =
     map_option (\<lambda>(_, ep', _). ep') (OnNewChannel env fd ep)"
| "apply_op (DoCloseChannel del channel_id) ep =
     Some (fst (snd (CloseChannel del channel_id ep)))"
| "apply_op (DoAcceptConnection env message) ep =
     map_option (\<lambda>(_, _, ep', _). ep') (AcceptConnection env message ep)"
| "apply_op (DoPushChannel env message chan) ep =
     map_option (\<lambda>(_, _, _, ep', _). ep') (PushChannel env message chan ep)"
| "apply_op (DoMessageReceive env message) ep =
     map_option (\<lambda>(_, _, ep', _). ep') (MessageReceive env message ep)"
| "apply_op (DoMessageReply env message return_code) ep =
     Some (fst (snd (snd (MessageReply env message return_code ep))))"

fun run :: "table_op list \<Rightarrow> Endpoint \<Rightarrow> Endpoint option" where
  "run [] ep = Some ep"
| "run (x # xs) ep = (case apply_op x ep of None \<Rightarrow> None | Some ep' \<Rightarrow> run xs ep')"

text \<open>
  The two maps are consistent when the reverse map sends a descriptor to an id exactly
  when the forward map has a channel under that id whose socket is that descriptor.
\<close>

definition tables_consistent :: "Endpoint \<Rightarrow> bool" where
  "tables_consistent ep \<longleftrightarrow>
     (\<forall>fd i. channel_fd_to_id ep fd = Some i
        \<longleftrightarrow> (\<exists>cd. channels ep i = Some cd \<and> Get (data_fd cd) = fd))"

text \<open>The rolling counter is in range when it is a non-negative 32-bit signed integer.\<close>

definition counter_in_range :: "Endpoint \<Rightarrow> bool" where
  "counter_in_range ep \<longleftrightarrow> 0 \<le> last_channel_id ep \<and> last_channel_id ep \<le> INT32_MAX"

text \<open>
  A local handle owns its descriptor: the socket an operation is about to register is a
  descriptor the kernel has just handed out, or one the caller owns, so it is not the
  socket of a channel that is still in the table (the table closes the socket of a channel
  only when it erases the channel). \<open>new_socket\<close> is the descriptor an operation
  registers, if any; \<open>owned\<close> says that the sockets a sequence registers are not in the
  table when they are registered.
\<close>

fun new_socket :: "table_op \<Rightarrow> Endpoint \<Rightarrow> int option" where
  "new_socket (DoOnNewChannel env fd) ep = Some (Get fd)"
| "new_socket (DoAcceptConnection env message) ep =
     (case accept4_result env of ErrorStatus _ \<Rightarrow> None | Ok new_fd \<Rightarrow> Some new_fd)"
| "new_socket (DoPushChannel env message chan) ep =
     (case socketpair_result env of ErrorStatus _ \<Rightarrow> None | Ok (l, _) \<Rightarrow> Some l)"
| "new_socket (DoMessageReceive env message) ep =
     (case wait_result env of
        WaitEvent ready_fd _ \<Rightarrow>
          if ready_fd \<noteq> Get (cancel_event_fd ep) \<and> ready_fd = Get (socket_fd ep) then
            (case accept4_result (wait_accept env) of
               ErrorStatus _ \<Rightarrow> None
             | Ok new_fd \<Rightarrow> Some new_fd)
          else None
      | _ \<Rightarrow> None)"
| "new_socket _ ep = None"

fun owned :: "table_op list \<Rightarrow> Endpoint \<Rightarrow> bool" where
  "owned [] ep = True"
| "owned (x # xs) ep =
     ((case new_socket x ep of None \<Rightarrow> True | Some fd \<Rightarrow> channel_fd_to_id ep fd = None)
      \<and> (case apply_op x ep of None \<Rightarrow> True | Some ep' \<Rightarrow> owned xs ep'))"

subsection \<open>Sample values\<close>

definition sample_request :: RequestHeader where
  "sample_request = empty_request\<lparr>rq_op := 7, rq_file_descriptors := [Handle 11, Handle 12],
     rq_channels := [\<lparr>ci_data_fd = Handle 13, ci_event_fd = Handle 14\<rparr>]\<rparr>"

definition sample_info :: MessageInfo where
  "sample_info = \<lparr>pid = 100, tid = - 1, cid = 1, mid = 0, euid = 1000, egid = 1000, op = 7,
     flags = 0, service = Some 0, channel = None, send_len = 0, recv_len = 0, fd_count = 2,
     impulse = replicate 32 0\<rparr>"

definition sample_message :: Message where
  "sample_message = (new_Message sample_info)
     \<lparr>state := AllocateMessageState\<lparr>request := sample_request\<rparr>\<rparr>"

definition sample_endpoint :: Endpoint where
  "sample_endpoint = \<lparr>socket_fd = Handle 3, cancel_event_fd = Handle 4, epoll_fd = Handle 5,
     is_blocking = True, channels = Map.empty, channel_fd_to_id = Map.empty,
     last_channel_id = 0, endpoint_service = Some 0, next_message_id = 0\<rparr>"

definition sample_register_env :: register_env where
  "sample_register_env = \<lparr>epoll_add_result = Ok (), new_event_fd = Handle 20\<rparr>"

definition sample_table_ops :: "table_op list" where
  "sample_table_ops =
     [DoOnNewChannel sample_register_env (Handle 7),
      DoOnNewChannel sample_register_env (Handle 8),
      DoCloseChannel (ErrorStatus 2) 1]"

definition sample_channel :: "int \<Rightarrow> ChannelData" where
  "sample_channel fd = \<lparr>data_fd = Handle fd, event_fd = Handle 20, channel_state = None\<rparr>"

definition sample_open_endpoint :: Endpoint where
  "sample_open_endpoint = registered (sample_channel 7) 1 sample_endpoint"

definition sample_receive_env :: receive_env where
  "sample_receive_env = \<lparr>header_result = Ok (sample_request\<lparr>rq_send_len := 100\<rparr>),
     payload_result = ErrorStatus 104, reenable_result = Ok (), close_result = Ok ()\<rparr>"

definition sample_impulse_env :: receive_env where
  "sample_impulse_env = \<lparr>header_result =
       Ok (sample_request\<lparr>rq_send_len := 100, rq_is_impulse := True\<rparr>),
     payload_result = Ok [], reenable_result = Ok (), close_result = Ok ()\<rparr>"

definition sample_reply_env :: reply_env where
  "sample_reply_env = \<lparr>send_header_result = Ok (), send_payload_result = Ok (),
     reply_reenable_result = Ok (), reply_close_result = Ok ()\<rparr>"

definition sample_open_message :: Message where
  "sample_open_message = (new_Message (sample_info\<lparr>op := CHANNEL_OPEN\<rparr>))
     \<lparr>state := AllocateMessageState\<lparr>response_data := [1, 2, 3]\<rparr>\<rparr>"

definition sample_open_message_pushed :: Message where
  "sample_open_message_pushed = sample_open_message
     \<lparr>state := (state sample_open_message)
        \<lparr>response := empty_response\<lparr>rs_file_descriptors := [Handle 30]\<rparr>\<rparr>\<rparr>"

definition sample_accept_env :: accept_env where
  "sample_accept_env = \<lparr>accept4_result = Ok 7, passcred_result = Ok (),
     accept_register = sample_register_env,
     accept_receive = sample_receive_env\<lparr>header_result := Ok sample_request\<rparr>\<rparr>"

definition sample_wait_env :: wait_env where
  "sample_wait_env = \<lparr>wait_result = WaitEvent 3 1, wait_accept = sample_accept_env,
     listen_reenable_result = Ok (), wait_receive = sample_receive_env\<rparr>"

text \<open>The status and the calls of a receive, without the message and the endpoint.\<close>

definition status_and_calls ::
  "(unit Status \<times> Message \<times> Endpoint \<times> call list) option \<Rightarrow> (unit Status \<times> call list) option"
  where
  "status_and_calls r = (case r of None \<Rightarrow> None | Some (st, _, _, cs) \<Rightarrow> Some (st, cs))"

section \<open>Pulling references\<close>

text \<open>
  C8. Pulling a negative reference \<open>v\<close>, as a file or as a channel reference, yields the
  sentinel handle that carries exactly \<open>v\<close>; the inbound lists are not consulted (the
  result is the same for every state of the message) and the message is left as it was.
\<close>

theorem pull_negative_reference_verbatim:
  assumes "v < 0"
  shows "GetFileHandle message v = (Handle v, message)
    \<and> GetChannelHandle message v = (\<lparr>manager = NullManager, handle_value = v\<rparr>, message)
    \<and> fst (GetFileHandle (message\<lparr>state := st\<rparr>) v) = fst (GetFileHandle message v)
    \<and> fst (GetChannelHandle (message\<lparr>state := st\<rparr>) v) = fst (GetChannelHandle message v)"
  using assms
  by (simp add: GetFileHandle_def GetChannelHandle_def GetLocalFileHandle_def
      GetLocalChannelHandle_def)

theorem pull_negative_reference_verbatim_witness:
  "(- 7 :: int) < 0
   \<and> GetFileHandle sample_message (- 7) = (Handle (- 7), sample_message)
   \<and> GetChannelHandle sample_message (- 7)
       = (\<lparr>manager = NullManager, handle_value = - 7\<rparr>, sample_message)"
  using pull_negative_reference_verbatim [of "- 7" sample_message]
  by simp

text \<open>
  C10. Pulling a file reference moves the handle out of the inbound list. For an index
  within the list, the first \<^verbatim>\<open>GetFileHandle\<close> returns the handle of the list and leaves the
  empty handle in its place; a second \<^verbatim>\<open>GetFileHandle\<close> with the same index on the same
  message returns the empty handle, which is invalid, and so differs from the original
  handle whenever that one was valid.
\<close>

theorem pull_file_reference_moves_out:
  assumes "0 \<le> i" and "nat i < length (rq_file_descriptors (request (state message)))"
  shows "fst (GetFileHandle message i) = rq_file_descriptors (request (state message)) ! nat i
    \<and> rq_file_descriptors (request (state (snd (GetFileHandle message i))))
        = (rq_file_descriptors (request (state message)))[nat i := EmptyHandle]
    \<and> fst (GetFileHandle (snd (GetFileHandle message i)) i) = EmptyHandle
    \<and> \<not> IsValid (fst (GetFileHandle (snd (GetFileHandle message i)) i))
    \<and> (IsValid (rq_file_descriptors (request (state message)) ! nat i) \<longrightarrow>
         fst (GetFileHandle (snd (GetFileHandle message i)) i)
           \<noteq> rq_file_descriptors (request (state message)) ! nat i)"
proof -
  have "\<And>h. IsValid h \<Longrightarrow> EmptyHandle \<noteq> h"
    by (auto simp add: EmptyHandle_def IsValid_def kEmptyFileHandle_def)
  with assms show ?thesis
    by (auto simp add: GetFileHandle_def GetLocalFileHandle_def)
qed

theorem pull_file_reference_moves_out_witness:
  "(0::int) \<le> 1
   \<and> nat 1 < length (rq_file_descriptors (request (state sample_message)))
   \<and> fst (GetFileHandle sample_message 1) = Handle 12
   \<and> fst (GetFileHandle (snd (GetFileHandle sample_message 1)) 1) = Handle (- 1)"
  using pull_file_reference_moves_out [of 1 sample_message]
  by (simp add: sample_message_def sample_request_def EmptyHandle_def kEmptyFileHandle_def)

text \<open>
  C7, as the code has it. Pulling a non-negative reference at or beyond the length of the
  inbound list does not fail with an invalid-argument error: \<^verbatim>\<open>GetLocalFileHandle\<close> and
  \<^verbatim>\<open>GetLocalChannelHandle\<close> return false and write nothing, \<^verbatim>\<open>GetFileHandle\<close> and
  \<^verbatim>\<open>GetChannelHandle\<close> drop that result and return the default-constructed, empty handle.
  The lists are not read and the message is left as it was.
\<close>

theorem pull_out_of_range_reference_is_empty:
  assumes "0 \<le> i"
  shows "(length (rq_file_descriptors (request (state message))) \<le> nat i \<longrightarrow>
            GetFileHandle message i = (EmptyHandle, message)
          \<and> \<not> IsValid (fst (GetFileHandle message i))
          \<and> GetLocalFileHandle i h (state message) = (False, h, state message))
    \<and> (length (rq_channels (request (state message))) \<le> nat i \<longrightarrow>
            GetChannelHandle message i = (EmptyChannelHandle, message)
          \<and> GetLocalChannelHandle i c (state message) = (False, c, state message))"
  using assms
  by (simp add: GetFileHandle_def GetLocalFileHandle_def GetChannelHandle_def
      GetLocalChannelHandle_def EmptyHandle_def IsValid_def kEmptyFileHandle_def)

theorem pull_out_of_range_reference_is_empty_witness:
  "(0::int) \<le> 2
   \<and> length (rq_file_descriptors (request (state sample_message))) \<le> nat 2
   \<and> length (rq_channels (request (state sample_message))) \<le> nat 2
   \<and> GetFileHandle sample_message 2 = (Handle (- 1), sample_message)
   \<and> GetChannelHandle sample_message 2
       = (\<lparr>manager = NullManager, handle_value = - 1\<rparr>, sample_message)"
  using pull_out_of_range_reference_is_empty [of 2 sample_message]
  by (simp add: sample_message_def sample_request_def EmptyHandle_def kEmptyFileHandle_def
      EmptyChannelHandle_def kEmptyHandle_def)

text \<open>
  C7, as the spec states it, fails. The sample message has two inbound file handles and one
  inbound channel. Pulling the file reference 2 returns the handle \<open>- 1\<close>, which is what
  pulling the sentinel \<open>- 1\<close> returns as well, and not a handle that carries
  \<^verbatim>\<open>EINVAL\<close>; the same holds for the channel reference 1. The caller sees no error.
\<close>

theorem pull_out_of_range_reference_counterexample:
  "GetFileHandle sample_message 2 = (Handle (- 1), sample_message)
   \<and> GetFileHandle sample_message 2 = GetFileHandle sample_message (- 1)
   \<and> Get (fst (GetFileHandle sample_message 2)) \<noteq> - EINVAL
   \<and> GetChannelHandle sample_message 1 = GetChannelHandle sample_message (- 1)"
  by (simp add: GetFileHandle_def GetLocalFileHandle_def GetChannelHandle_def
      GetLocalChannelHandle_def EmptyHandle_def kEmptyFileHandle_def
      sample_message_def sample_request_def EINVAL_def EmptyChannelHandle_def kEmptyHandle_def)

section \<open>The channel table\<close>

subsection \<open>The rolling counter and the loop\<close>

lemma next_channel_id_range:
  "0 \<le> l \<Longrightarrow> l \<le> INT32_MAX \<Longrightarrow> 1 \<le> next_channel_id l \<and> next_channel_id l \<le> INT32_MAX"
  by (simp add: next_channel_id_def INT32_MAX_def)

lemma next_channel_id_funpow_range:
  "0 \<le> l \<Longrightarrow> l \<le> INT32_MAX \<Longrightarrow>
     1 \<le> (next_channel_id ^^ Suc k) l \<and> (next_channel_id ^^ Suc k) l \<le> INT32_MAX"
proof (induction k)
  case 0
  then show ?case using next_channel_id_range by simp
next
  case (Suc k)
  then have "0 \<le> (next_channel_id ^^ Suc k) l \<and> (next_channel_id ^^ Suc k) l \<le> INT32_MAX"
    by simp
  then show ?case using next_channel_id_range [of "(next_channel_id ^^ Suc k) l"] by simp
qed

lemma loop_result:
  assumes run: "OnNewChannelLocked_loop cd0 ep0 = Some r0"
  shows "\<exists>k. r0 = (((next_channel_id ^^ Suc k) (last_channel_id ep0), cd0),
              registered cd0 ((next_channel_id ^^ Suc k) (last_channel_id ep0)) ep0)
        \<and> channels ep0 ((next_channel_id ^^ Suc k) (last_channel_id ep0)) = None
        \<and> (\<forall>j<k. channels ep0 ((next_channel_id ^^ Suc j) (last_channel_id ep0)) \<noteq> None)"
proof (rule OnNewChannelLocked_loop.raw_induct
    [where P = "\<lambda>cd ep r. \<exists>k. r = (((next_channel_id ^^ Suc k) (last_channel_id ep), cd),
              registered cd ((next_channel_id ^^ Suc k) (last_channel_id ep)) ep)
        \<and> channels ep ((next_channel_id ^^ Suc k) (last_channel_id ep)) = None
        \<and> (\<forall>j<k. channels ep ((next_channel_id ^^ Suc j) (last_channel_id ep)) \<noteq> None)",
     OF _ run])
  fix loop cd ep r
  assume IH: "\<And>cd ep r. loop cd ep = Some r \<Longrightarrow>
      \<exists>k. r = (((next_channel_id ^^ Suc k) (last_channel_id ep), cd),
              registered cd ((next_channel_id ^^ Suc k) (last_channel_id ep)) ep)
        \<and> channels ep ((next_channel_id ^^ Suc k) (last_channel_id ep)) = None
        \<and> (\<forall>j<k. channels ep ((next_channel_id ^^ Suc j) (last_channel_id ep)) \<noteq> None)"
    and body: "(if channels ep (next_channel_id (last_channel_id ep)) = None then
        Some
          ((next_channel_id (last_channel_id ep), cd),
           ep\<lparr>last_channel_id := next_channel_id (last_channel_id ep),
              channel_fd_to_id := emplace (channel_fd_to_id ep) (Get (data_fd cd))
                (next_channel_id (last_channel_id ep)),
              channels := (channels ep)
                (next_channel_id (last_channel_id ep) \<mapsto> cd)\<rparr>)
      else loop cd (ep\<lparr>last_channel_id := next_channel_id (last_channel_id ep)\<rparr>)) = Some r"
  let ?n = "next_channel_id (last_channel_id ep)"
  show "\<exists>k. r = (((next_channel_id ^^ Suc k) (last_channel_id ep), cd),
              registered cd ((next_channel_id ^^ Suc k) (last_channel_id ep)) ep)
        \<and> channels ep ((next_channel_id ^^ Suc k) (last_channel_id ep)) = None
        \<and> (\<forall>j<k. channels ep ((next_channel_id ^^ Suc j) (last_channel_id ep)) \<noteq> None)"
  proof (cases "channels ep ?n = None")
    case True
    with body have "r = ((?n, cd), registered cd ?n ep)"
      by (simp add: registered_def)
    with True show ?thesis by (intro exI [of _ 0]) simp
  next
    case False
    let ?ep1 = "ep\<lparr>last_channel_id := ?n\<rparr>"
    from False body have "loop cd ?ep1 = Some r" by (auto split: if_splits)
    from IH [OF this] obtain k where
      k: "r = (((next_channel_id ^^ Suc k) ?n, cd), registered cd ((next_channel_id ^^ Suc k) ?n) ?ep1)"
         "channels ep ((next_channel_id ^^ Suc k) ?n) = None"
         "\<forall>j<k. channels ep ((next_channel_id ^^ Suc j) ?n) \<noteq> None"
      by auto
    have sw: "\<And>m. (next_channel_id ^^ Suc m) ?n = (next_channel_id ^^ Suc (Suc m)) (last_channel_id ep)"
      by (simp add: funpow_swap1)
    have "\<forall>j<Suc k. channels ep ((next_channel_id ^^ Suc j) (last_channel_id ep)) \<noteq> None"
    proof (intro allI impI)
      fix j assume "j < Suc k"
      show "channels ep ((next_channel_id ^^ Suc j) (last_channel_id ep)) \<noteq> None"
      proof (cases j)
        case 0
        then show ?thesis using False by simp
      next
        case (Suc j')
        with \<open>j < Suc k\<close> have "j' < k" by simp
        with k(3) have "channels ep ((next_channel_id ^^ Suc j') ?n) \<noteq> None" by blast
        then show ?thesis unfolding sw Suc .
      qed
    qed
    moreover have "registered cd ((next_channel_id ^^ Suc k) ?n) ?ep1
        = registered cd ((next_channel_id ^^ Suc k) ?n) ep"
      by (simp add: registered_def)
    ultimately show ?thesis
      using k(1,2) unfolding sw by (intro exI [of _ "Suc k"]) simp
  qed
qed


lemma loop_terminates:
  assumes "1 \<le> free" "free \<le> INT32_MAX" "channels ep free = None"
    and "0 \<le> last_channel_id ep" "last_channel_id ep \<le> INT32_MAX"
  shows "\<exists>r. OnNewChannelLocked_loop cd ep = Some r"
  using assms
proof (induction "nat (if last_channel_id ep < free then free - last_channel_id ep - 1
                       else INT32_MAX - last_channel_id ep + free - 1)"
       arbitrary: ep rule: less_induct)
  case less
  let ?n = "next_channel_id (last_channel_id ep)"
  show ?case
  proof (cases "channels ep ?n = None")
    case True
    then show ?thesis by (subst OnNewChannelLocked_loop.simps) simp
  next
    case False
    let ?ep1 = "ep\<lparr>last_channel_id := ?n\<rparr>"
    from False less.prems have ne: "?n \<noteq> free" by auto
    have r: "1 \<le> ?n \<and> ?n \<le> INT32_MAX"
      using less.prems next_channel_id_range by simp
    have dec: "nat (if last_channel_id ?ep1 < free then free - last_channel_id ?ep1 - 1
                       else INT32_MAX - last_channel_id ?ep1 + free - 1)
          < nat (if last_channel_id ep < free then free - last_channel_id ep - 1
                       else INT32_MAX - last_channel_id ep + free - 1)"
      using ne less.prems by (auto simp add: next_channel_id_def INT32_MAX_def split: if_splits)
    have "\<exists>r. OnNewChannelLocked_loop cd ?ep1 = Some r"
      using less.hyps [OF dec] less.prems r by simp
    then show ?thesis using False by (subst OnNewChannelLocked_loop.simps) simp
  qed
qed

lemma OnNewChannelLocked_Ok:
  assumes "OnNewChannelLocked env fd chan ep = Some (Ok (new_id, cd), ep', cs)"
  shows "\<exists>k. new_id = (next_channel_id ^^ Suc k) (last_channel_id ep)
      \<and> cd = \<lparr>data_fd = fd, event_fd = new_event_fd env, channel_state = chan\<rparr>
      \<and> ep' = registered cd new_id ep
      \<and> channels ep new_id = None
      \<and> (\<forall>j<k. channels ep ((next_channel_id ^^ Suc j) (last_channel_id ep)) \<noteq> None)"
proof -
  from assms obtain r where
    r: "OnNewChannelLocked_loop \<lparr>data_fd = fd, event_fd = new_event_fd env, channel_state = chan\<rparr> ep
          = Some r" "r = ((new_id, cd), ep')"
    by (auto simp add: OnNewChannelLocked_def split: Status.splits option.splits)
  from loop_result [OF r(1)] r(2) show ?thesis by auto
qed

lemma OnNewChannelLocked_Error:
  assumes "OnNewChannelLocked env fd chan ep = Some (ErrorStatus e, ep', cs)"
  shows "ep' = ep"
  using assms by (auto simp add: OnNewChannelLocked_def split: Status.splits option.splits)

lemma tables_consistent_registered:
  assumes "tables_consistent ep" "channels ep i = None" "channel_fd_to_id ep (Get (data_fd cd)) = None"
  shows "tables_consistent (registered cd i ep)"
  unfolding tables_consistent_def
proof (intro allI)
  fix fd j
  from assms(1) have c: "\<And>fd i. channel_fd_to_id ep fd = Some i
        \<longleftrightarrow> (\<exists>cd. channels ep i = Some cd \<and> Get (data_fd cd) = fd)"
    by (simp add: tables_consistent_def)
  show "channel_fd_to_id (registered cd i ep) fd = Some j
        \<longleftrightarrow> (\<exists>cd'. channels (registered cd i ep) j = Some cd' \<and> Get (data_fd cd') = fd)"
    using assms(2,3) c [of fd j]
    by (auto simp add: registered_def emplace_def)
qed

lemma tables_consistent_CloseChannelLocked:
  assumes "tables_consistent ep"
  shows "tables_consistent (fst (snd (CloseChannelLocked d i ep)))"
proof (cases "channels ep i")
  case None
  then show ?thesis using assms by (simp add: CloseChannelLocked_def)
next
  case (Some cd)
  from assms have c: "\<And>fd i. channel_fd_to_id ep fd = Some i
        \<longleftrightarrow> (\<exists>cd. channels ep i = Some cd \<and> Get (data_fd cd) = fd)"
    by (simp add: tables_consistent_def)
  have "\<And>fd j. (if fd = Get (data_fd cd) then None else channel_fd_to_id ep fd) = Some j
       \<longleftrightarrow> (\<exists>cd'. (if j = i then None else channels ep j) = Some cd' \<and> Get (data_fd cd') = fd)"
  proof -
    fix fd j
    have fwd: "\<And>j cd'. channels ep j = Some cd' \<Longrightarrow> channel_fd_to_id ep (Get (data_fd cd')) = Some j"
      using c by blast
    have rev: "\<And>fd j. channel_fd_to_id ep fd = Some j \<Longrightarrow>
        \<exists>cd'. channels ep j = Some cd' \<and> Get (data_fd cd') = fd"
      using c by blast
    show "(if fd = Get (data_fd cd) then None else channel_fd_to_id ep fd) = Some j
       \<longleftrightarrow> (\<exists>cd'. (if j = i then None else channels ep j) = Some cd' \<and> Get (data_fd cd') = fd)"
      using Some fwd [of i cd] fwd [of j] rev [of fd j] by (auto split: if_splits)
  qed
  then show ?thesis using Some
    by (simp add: CloseChannelLocked_def tables_consistent_def fun_upd_def Let_def)
qed

subsection \<open>What the operations preserve\<close>

text \<open>
  A property of the endpoint that does not depend on the message counter, that closing a
  channel preserves and that the registrations of an operation establish, holds after the
  operation.
\<close>

lemma BuildCloseMessage_endpoint:
  "snd (BuildCloseMessage i ep) = ep\<lparr>next_message_id := next_message_id ep + 1\<rparr>"
  by (simp add: BuildCloseMessage_def GetNextAvailableMessageId_def)

lemma failed_preserves:
  assumes ins: "\<And>ep w. P (ep\<lparr>next_message_id := w\<rparr>) = P ep"
    and cl: "\<And>d i ep. P ep \<Longrightarrow> P (fst (snd (CloseChannelLocked d i ep)))"
    and "P ep"
  shows "P (fst (snd (snd (ReceiveMessageForChannel_failed d e i m ep))))"
proof (cases "e = ESHUTDOWN")
  case True
  then have "fst (snd (snd (ReceiveMessageForChannel_failed d e i m ep))) = snd (BuildCloseMessage i ep)"
    by (simp add: ReceiveMessageForChannel_failed_def split: prod.splits)
  then show ?thesis using assms(3) by (simp add: BuildCloseMessage_endpoint ins)
next
  case False
  then have "fst (snd (snd (ReceiveMessageForChannel_failed d e i m ep)))
      = fst (snd (CloseChannelLocked d i ep))"
    by (simp add: ReceiveMessageForChannel_failed_def CloseChannel_def split: prod.splits)
  then show ?thesis using cl [OF assms(3)] by simp
qed

lemma receive_preserves:
  assumes ins: "\<And>ep w. P (ep\<lparr>next_message_id := w\<rparr>) = P ep"
    and cl: "\<And>d i ep. P ep \<Longrightarrow> P (fst (snd (CloseChannelLocked d i ep)))"
    and "P ep"
  shows "P (fst (snd (snd (ReceiveMessageForChannel env fd m ep))))"
proof -
  have f: "\<And>d e i m ep. P ep \<Longrightarrow>
      P (fst (snd (snd (ReceiveMessageForChannel_failed d e i m ep))))"
    by (rule failed_preserves [where P = P]) (simp_all add: ins cl)
  have g: "P (snd (GetNextAvailableMessageId ep))"
    using assms(3) by (simp add: GetNextAvailableMessageId_def ins)
  show ?thesis
    unfolding ReceiveMessageForChannel_def
    by (simp add: Let_def case_prod_beta f g assms(3) split: Status.splits)
qed

lemma reply_preserves:
  assumes cl: "\<And>d i ep. P ep \<Longrightarrow> P (fst (snd (CloseChannelLocked d i ep)))"
    and "P ep"
  shows "P (fst (snd (snd (MessageReply env m rc ep))))"
  unfolding MessageReply_def CloseChannel_def
  by (simp add: Let_def case_prod_beta cl assms(2) split: Status.splits)

lemma OnNewChannel_endpoint:
  assumes "OnNewChannel env fd ep = Some x"
  shows "\<exists>y. OnNewChannelLocked env fd None ep = Some y \<and> fst (snd y) = fst (snd x)
     \<and> ok (fst y) = ok (fst x)"
  using assms unfolding OnNewChannel_def
  by (auto split: option.splits prod.splits Status.splits)

lemma accept_preserves:
  assumes ins: "\<And>ep w. P (ep\<lparr>next_message_id := w\<rparr>) = P ep"
    and cl: "\<And>d i ep. P ep \<Longrightarrow> P (fst (snd (CloseChannelLocked d i ep)))"
    and reg: "\<And>new_fd y. accept4_result env = Ok new_fd \<Longrightarrow>
        OnNewChannelLocked (accept_register env) (Handle new_fd) None ep = Some y \<Longrightarrow> P (fst (snd y))"
    and "P ep"
    and "AcceptConnection env m ep = Some res"
  shows "P (fst (snd (snd res)))"
proof (cases "accept4_result env")
  case (ErrorStatus e)
  with assms(4,5) show ?thesis by (auto simp add: AcceptConnection_def)
next
  case (Ok new_fd)
  note acc = this
  show ?thesis
  proof (cases "passcred_result env")
    case (ErrorStatus e)
    with acc assms(4,5) show ?thesis by (auto simp add: AcceptConnection_def)
  next
    case (Ok u)
    note pc = this
    show ?thesis
    proof (cases "OnNewChannel (accept_register env) (Handle new_fd) ep")
      case None
      with acc pc assms(5) show ?thesis by (simp add: AcceptConnection_def)
    next
      case (Some x)
      from OnNewChannel_endpoint [OF Some] reg [OF acc] have p1: "P (fst (snd x))" by auto
      have r: "\<And>m. P (fst (snd (snd (ReceiveMessageForChannel (accept_receive env)
            (Handle new_fd) m (fst (snd x))))))"
        by (rule receive_preserves [where P = P]) (simp_all add: ins cl p1)
      from acc pc Some assms(5) show ?thesis
        by (cases x; cases "fst x")
           (use p1 r in \<open>auto simp add: AcceptConnection_def case_prod_beta\<close>)
    qed
  qed
qed


lemma wait_preserves:
  assumes ins: "\<And>ep w. P (ep\<lparr>next_message_id := w\<rparr>) = P ep"
    and cl: "\<And>d i ep. P ep \<Longrightarrow> P (fst (snd (CloseChannelLocked d i ep)))"
    and reg: "\<And>ready_fd events new_fd y. wait_result env = WaitEvent ready_fd events \<Longrightarrow>
        ready_fd \<noteq> Get (cancel_event_fd ep) \<and> ready_fd = Get (socket_fd ep) \<Longrightarrow>
        accept4_result (wait_accept env) = Ok new_fd \<Longrightarrow>
        OnNewChannelLocked (accept_register (wait_accept env)) (Handle new_fd) None ep = Some y
          \<Longrightarrow> P (fst (snd y))"
    and "P ep"
    and "MessageReceive env m ep = Some res"
  shows "P (fst (snd (snd res)))"
proof (cases "wait_result env")
  case (WaitFailed e)
  with assms(4,5) show ?thesis by (auto simp add: MessageReceive_def)
next
  case WaitNoEvent
  with assms(4,5) show ?thesis by (auto simp add: MessageReceive_def)
next
  case (WaitEvent ready_fd events)
  note ev = this
  have r: "\<And>fd. P (fst (snd (snd (ReceiveMessageForChannel (wait_receive env) fd m ep))))"
    by (rule receive_preserves [where P = P]) (simp_all add: ins cl assms(4))
  have b: "\<And>i. P (snd (BuildCloseMessage i ep))"
    using assms(4) by (simp add: BuildCloseMessage_endpoint ins)
  show ?thesis
  proof (cases "ready_fd \<noteq> Get (cancel_event_fd ep) \<and> ready_fd = Get (socket_fd ep)")
    case False
    with ev assms(4,5) r b show ?thesis
      by (auto simp add: MessageReceive_def case_prod_beta split: if_splits)
  next
    case True
    show ?thesis
    proof (cases "AcceptConnection (wait_accept env) m ep")
      case None
      with ev True assms(5) show ?thesis by (simp add: MessageReceive_def)
    next
      case (Some x)
      have "P (fst (snd (snd x)))"
        by (rule accept_preserves [where P = P, OF _ _ _ assms(4) Some])
           (simp_all add: ins cl reg [OF ev True])
      with ev True Some assms(5) show ?thesis
        by (cases x; cases "fst x")
           (auto simp add: MessageReceive_def ReenableEpollEvent_def case_prod_beta)
    qed
  qed
qed

lemma push_preserves:
  assumes reg: "\<And>l rm y. socketpair_result env = Ok (l, rm) \<Longrightarrow>
        OnNewChannelLocked (push_register env) (Handle l) chan ep = Some y \<Longrightarrow> P (fst (snd y))"
    and "P ep"
    and "PushChannel env m chan ep = Some res"
  shows "P (fst (snd (snd (snd res))))"
proof (cases "socketpair_result env")
  case (ErrorStatus e)
  with assms(2,3) show ?thesis by (auto simp add: PushChannel_def)
next
  case (Ok pr)
  obtain l rm where pr: "pr = (l, rm)" by (cases pr)
  note sp = Ok [unfolded pr]
  show ?thesis
  proof (cases "push_passcred_result env")
    case (ErrorStatus e)
    with sp assms(2,3) show ?thesis by (auto simp add: PushChannel_def)
  next
    case (Ok u)
    note pc = this
    show ?thesis
    proof (cases "OnNewChannelLocked (push_register env) (Handle l) chan ep")
      case None
      with sp pc assms(3) show ?thesis by (simp add: PushChannel_def)
    next
      case (Some y)
      from reg [OF sp Some] have "P (fst (snd y))" .
      with sp pc Some assms(3) show ?thesis
        by (cases y; cases "fst y")
           (auto simp add: PushChannel_def case_prod_beta split: Status.splits prod.splits)
    qed
  qed
qed


lemma apply_op_preserves:
  assumes ins: "\<And>ep w. P (ep\<lparr>next_message_id := w\<rparr>) = P ep"
    and cl: "\<And>d i ep. P ep \<Longrightarrow> P (fst (snd (CloseChannelLocked d i ep)))"
    and reg: "\<And>env fd chan y. new_socket x ep = Some (Get fd) \<Longrightarrow>
        OnNewChannelLocked env fd chan ep = Some y \<Longrightarrow> P (fst (snd y))"
    and "P ep"
    and "apply_op x ep = Some ep'"
  shows "P ep'"
proof (cases x)
  case (DoOnNewChannel env fd)
  with assms(5) obtain r where r: "OnNewChannel env fd ep = Some r" "ep' = fst (snd r)"
    by (auto simp add: case_prod_beta)
  from OnNewChannel_endpoint [OF r(1)] reg [of fd] DoOnNewChannel r(2) show ?thesis by auto
next
  case (DoCloseChannel d i)
  with assms(4,5) cl show ?thesis by (auto simp add: CloseChannel_def)
next
  case (DoAcceptConnection env m)
  with assms(5) obtain r where r: "AcceptConnection env m ep = Some r" "ep' = fst (snd (snd r))"
    by (auto simp add: case_prod_beta)
  have "P (fst (snd (snd r)))"
  proof (rule accept_preserves [where P = P, OF _ _ _ assms(4) r(1)])
    fix new_fd y
    assume "accept4_result env = Ok new_fd"
      and "OnNewChannelLocked (accept_register env) (Handle new_fd) None ep = Some y"
    with DoAcceptConnection reg [of "Handle new_fd" "accept_register env" None y]
    show "P (fst (snd y))" by simp
  qed (simp_all add: ins cl)
  with r(2) show ?thesis by simp
next
  case (DoPushChannel env m chan)
  with assms(5) obtain r where r: "PushChannel env m chan ep = Some r"
      "ep' = fst (snd (snd (snd r)))"
    by (auto simp add: case_prod_beta)
  have "P (fst (snd (snd (snd r))))"
  proof (rule push_preserves [where P = P, OF _ assms(4) r(1)])
    fix l rm y
    assume "socketpair_result env = Ok (l, rm)"
      and "OnNewChannelLocked (push_register env) (Handle l) chan ep = Some y"
    with DoPushChannel reg [of "Handle l" "push_register env" chan y]
    show "P (fst (snd y))" by simp
  qed
  with r(2) show ?thesis by simp
next
  case (DoMessageReceive env m)
  with assms(5) obtain r where r: "MessageReceive env m ep = Some r" "ep' = fst (snd (snd r))"
    by (auto simp add: case_prod_beta)
  have "P (fst (snd (snd r)))"
  proof (rule wait_preserves [where P = P, OF _ _ _ assms(4) r(1)])
    fix ready_fd events new_fd y
    assume "wait_result env = WaitEvent ready_fd events"
      and "ready_fd \<noteq> Get (cancel_event_fd ep) \<and> ready_fd = Get (socket_fd ep)"
      and "accept4_result (wait_accept env) = Ok new_fd"
      and "OnNewChannelLocked (accept_register (wait_accept env)) (Handle new_fd) None ep = Some y"
    with DoMessageReceive
      reg [of "Handle new_fd" "accept_register (wait_accept env)" None y]
    show "P (fst (snd y))" by simp
  qed (simp_all add: ins cl)
  with r(2) show ?thesis by simp
next
  case (DoMessageReply env m rc)
  with assms(4,5) reply_preserves [where P = P, OF cl, of ep env m rc] show ?thesis
    by (auto simp add: cl)
qed

lemma counter_in_range_CloseChannelLocked:
  "counter_in_range ep \<Longrightarrow> counter_in_range (fst (snd (CloseChannelLocked d i ep)))"
  by (simp add: CloseChannelLocked_def counter_in_range_def Let_def split: option.splits)

lemma counter_in_range_OnNewChannelLocked:
  assumes "counter_in_range ep" "OnNewChannelLocked env fd chan ep = Some y"
  shows "counter_in_range (fst (snd y))"
proof (cases y)
  case (fields st ep' cs)
  show ?thesis
  proof (cases st)
    case (ErrorStatus e)
    with fields assms OnNewChannelLocked_Error [of env fd chan ep e ep' cs] show ?thesis by simp
  next
    case (Ok r)
    obtain new_id cd where "r = (new_id, cd)" by (cases r)
    with Ok fields assms(2) OnNewChannelLocked_Ok [of env fd chan ep new_id cd ep' cs]
    obtain k where "new_id = (next_channel_id ^^ Suc k) (last_channel_id ep)"
        "ep' = registered cd new_id ep" by auto
    with assms(1) next_channel_id_funpow_range [of "last_channel_id ep" k] fields
    show ?thesis by (simp add: counter_in_range_def registered_def)
  qed
qed

lemma tables_consistent_OnNewChannelLocked:
  assumes "tables_consistent ep" "channel_fd_to_id ep (Get fd) = None"
    "OnNewChannelLocked env fd chan ep = Some y"
  shows "tables_consistent (fst (snd y))"
proof (cases y)
  case (fields st ep' cs)
  show ?thesis
  proof (cases st)
    case (ErrorStatus e)
    with fields assms OnNewChannelLocked_Error [of env fd chan ep e ep' cs] show ?thesis by simp
  next
    case (Ok r)
    obtain new_id cd where "r = (new_id, cd)" by (cases r)
    with Ok fields assms(3) OnNewChannelLocked_Ok [of env fd chan ep new_id cd ep' cs]
    have "data_fd cd = fd" "ep' = registered cd new_id ep" "channels ep new_id = None" by auto
    with assms(1,2) fields tables_consistent_registered [of ep new_id cd]
    show ?thesis by simp
  qed
qed

lemma run_counter_in_range:
  "counter_in_range ep \<Longrightarrow> run ops ep = Some ep' \<Longrightarrow> counter_in_range ep'"
proof (induction ops arbitrary: ep)
  case Nil
  then show ?case by simp
next
  case (Cons x xs)
  from Cons.prems(2) obtain ep1 where s: "apply_op x ep = Some ep1" "run xs ep1 = Some ep'"
    by (auto split: option.splits)
  have "counter_in_range ep1"
  proof (rule apply_op_preserves [where P = counter_in_range, OF _ _ _ Cons.prems(1) s(1)])
    show "\<And>ep w. counter_in_range (ep\<lparr>next_message_id := w\<rparr>) = counter_in_range ep"
      by (simp add: counter_in_range_def)
    show "\<And>d i ep. counter_in_range ep \<Longrightarrow>
        counter_in_range (fst (snd (CloseChannelLocked d i ep)))"
      by (rule counter_in_range_CloseChannelLocked)
    show "\<And>env fd chan y. new_socket x ep = Some (Get fd) \<Longrightarrow>
        OnNewChannelLocked env fd chan ep = Some y \<Longrightarrow> counter_in_range (fst (snd y))"
      using counter_in_range_OnNewChannelLocked [OF Cons.prems(1)] by blast
  qed
  with Cons.IH s(2) show ?case by simp
qed

lemma run_tables_consistent:
  "tables_consistent ep \<Longrightarrow> owned ops ep \<Longrightarrow> run ops ep = Some ep' \<Longrightarrow> tables_consistent ep'"
proof (induction ops arbitrary: ep)
  case Nil
  then show ?case by simp
next
  case (Cons x xs)
  from Cons.prems(3) obtain ep1 where s: "apply_op x ep = Some ep1" "run xs ep1 = Some ep'"
    by (auto split: option.splits)
  from Cons.prems(2) s(1) have o: "owned xs ep1"
    "\<And>fd. new_socket x ep = Some fd \<Longrightarrow> channel_fd_to_id ep fd = None"
    by auto
  have "tables_consistent ep1"
  proof (rule apply_op_preserves [where P = tables_consistent, OF _ _ _ Cons.prems(1) s(1)])
    show "\<And>ep w. tables_consistent (ep\<lparr>next_message_id := w\<rparr>) = tables_consistent ep"
      by (simp add: tables_consistent_def)
    show "\<And>d i ep. tables_consistent ep \<Longrightarrow> tables_consistent (fst (snd (CloseChannelLocked d i ep)))"
      by (rule tables_consistent_CloseChannelLocked)
    show "\<And>env fd chan y. new_socket x ep = Some (Get fd) \<Longrightarrow>
        OnNewChannelLocked env fd chan ep = Some y \<Longrightarrow> tables_consistent (fst (snd y))"
      using tables_consistent_OnNewChannelLocked [OF Cons.prems(1)] o(2) by blast
  qed
  with Cons.IH o(1) s(2) show ?case by simp
qed

lemma owned_take: "owned ops ep \<Longrightarrow> owned (take n ops) ep"
proof (induction ops arbitrary: n ep)
  case Nil
  then show ?case by simp
next
  case (Cons x xs)
  show ?case
  proof (cases n)
    case 0
    then show ?thesis by simp
  next
    case (Suc m)
    with Cons show ?thesis by (auto split: option.splits)
  qed
qed

subsection \<open>The two maps stay consistent\<close>

text \<open>
  C1. From an endpoint whose forward map \<open>channels\<close> and reverse map \<open>channel_fd_to_id\<close> are
  consistent (a new endpoint has both empty), after every prefix of every sequence of
  \<^verbatim>\<open>OnNewChannel\<close>, \<^verbatim>\<open>CloseChannel\<close>, \<^verbatim>\<open>AcceptConnection\<close>, \<^verbatim>\<open>PushChannel\<close>, \<^verbatim>\<open>MessageReceive\<close>
  and \<^verbatim>\<open>MessageReply\<close> calls the two maps are consistent again: every entry of one has its
  one matching entry in the other. The outcome of every system call is arbitrary, so this
  covers a close whose epoll deregistration fails. The sockets registered are owned
  handles: none is the socket of a channel that is in the table at that time.
\<close>

theorem channel_tables_stay_consistent:
  assumes "tables_consistent ep0" and "owned ops ep0" and "run (take n ops) ep0 = Some ep"
  shows "tables_consistent ep
    \<and> (\<forall>i j cd cd'. channels ep i = Some cd \<and> channels ep j = Some cd'
          \<and> Get (data_fd cd) = Get (data_fd cd') \<longrightarrow> i = j)"
proof -
  have c: "tables_consistent ep"
    using run_tables_consistent [OF assms(1) owned_take [OF assms(2)] assms(3)] .
  then have "\<And>i cd. channels ep i = Some cd \<Longrightarrow>
      channel_fd_to_id ep (Get (data_fd cd)) = Some i"
    unfolding tables_consistent_def by blast
  then have "\<forall>i j cd cd'. channels ep i = Some cd \<and> channels ep j = Some cd'
          \<and> Get (data_fd cd) = Get (data_fd cd') \<longrightarrow> i = j"
    by (metis option.inject)
  with c show ?thesis by simp
qed

theorem channel_tables_stay_consistent_witness:
  "tables_consistent sample_endpoint
   \<and> owned sample_table_ops sample_endpoint
   \<and> run (take 3 sample_table_ops) sample_endpoint = Some
       (sample_endpoint\<lparr>last_channel_id := 2,
          channel_fd_to_id := (Map.empty(7 \<mapsto> 1, 8 \<mapsto> 2))(7 := None),
          channels := (Map.empty(1 \<mapsto> sample_channel 7, 2 \<mapsto> sample_channel 8))(1 := None)\<rparr>)
   \<and> tables_consistent
       (sample_endpoint\<lparr>last_channel_id := 2,
          channel_fd_to_id := (Map.empty(7 \<mapsto> 1, 8 \<mapsto> 2))(7 := None),
          channels := (Map.empty(1 \<mapsto> sample_channel 7, 2 \<mapsto> sample_channel 8))(1 := None)\<rparr>)"
proof -
  have c: "tables_consistent sample_endpoint"
    by (simp add: tables_consistent_def sample_endpoint_def)
  have o: "owned sample_table_ops sample_endpoint"
    by (simp add: sample_table_ops_def sample_endpoint_def sample_register_env_def
      OnNewChannel_def OnNewChannelLocked_def OnNewChannelLocked_loop.simps
      CloseChannel_def CloseChannelLocked_def next_channel_id_def INT32_MAX_def emplace_def)
  have r: "run (take 3 sample_table_ops) sample_endpoint = Some
       (sample_endpoint\<lparr>last_channel_id := 2,
          channel_fd_to_id := (Map.empty(7 \<mapsto> 1, 8 \<mapsto> 2))(7 := None),
          channels := (Map.empty(1 \<mapsto> sample_channel 7, 2 \<mapsto> sample_channel 8))(1 := None)\<rparr>)"
    by (simp add: sample_table_ops_def sample_endpoint_def sample_register_env_def
      OnNewChannel_def OnNewChannelLocked_def OnNewChannelLocked_loop.simps sample_channel_def
      CloseChannel_def CloseChannelLocked_def next_channel_id_def INT32_MAX_def emplace_def)
  from c o r channel_tables_stay_consistent [OF c o r] show ?thesis by simp
qed

subsection \<open>Allocation of channel ids\<close>

text \<open>
  C9. In every endpoint reached by a sequence of operations from one whose rolling counter
  is a non-negative 32-bit value, a registration that returns assigns an id between 1 and
  the maximum (never 0) that is not in the table at that moment; it is the first free id
  met when stepping the counter upward, the step after the maximum being 1; the counter
  is left at that id. So an id assigned before is assigned again only after its channel
  has left the table. The registration returns whenever adding the socket to the epoll
  set succeeds and some id between 1 and the maximum is free.
\<close>

theorem channel_id_allocation:
  assumes "counter_in_range ep0" and "run ops ep0 = Some ep"
  shows "(OnNewChannelLocked env fd chan ep = Some (Ok (new_id, cd), ep', cs) \<longrightarrow>
            new_id \<noteq> 0 \<and> 1 \<le> new_id \<and> new_id \<le> INT32_MAX
          \<and> channels ep new_id = None
          \<and> (\<exists>k. new_id = (next_channel_id ^^ Suc k) (last_channel_id ep)
                \<and> (\<forall>j<k. channels ep ((next_channel_id ^^ Suc j) (last_channel_id ep)) \<noteq> None))
          \<and> data_fd cd = fd \<and> channels ep' new_id = Some cd \<and> last_channel_id ep' = new_id)
    \<and> (ok (epoll_add_result env)
          \<and> (\<exists>free. 1 \<le> free \<and> free \<le> INT32_MAX \<and> channels ep free = None) \<longrightarrow>
        (\<exists>new_id cd ep' cs.
            OnNewChannelLocked env fd chan ep = Some (Ok (new_id, cd), ep', cs)))"
proof (intro conjI impI)
  from run_counter_in_range [OF assms] have rng: "counter_in_range ep" .
  {
    assume a: "OnNewChannelLocked env fd chan ep = Some (Ok (new_id, cd), ep', cs)"
    from OnNewChannelLocked_Ok [OF a] obtain k where
      k: "new_id = (next_channel_id ^^ Suc k) (last_channel_id ep)"
         "cd = \<lparr>data_fd = fd, event_fd = new_event_fd env, channel_state = chan\<rparr>"
         "ep' = registered cd new_id ep"
         "channels ep new_id = None"
         "\<forall>j<k. channels ep ((next_channel_id ^^ Suc j) (last_channel_id ep)) \<noteq> None"
      by blast
    from rng next_channel_id_funpow_range [of "last_channel_id ep" k] k(1)
    have b: "1 \<le> new_id \<and> new_id \<le> INT32_MAX" by (simp add: counter_in_range_def)
    then show "new_id \<noteq> 0" "1 \<le> new_id" "new_id \<le> INT32_MAX" by simp_all
    show "channels ep new_id = None" by (rule k(4))
    show "\<exists>k. new_id = (next_channel_id ^^ Suc k) (last_channel_id ep)
                \<and> (\<forall>j<k. channels ep ((next_channel_id ^^ Suc j) (last_channel_id ep)) \<noteq> None)"
      using k(1,5) by blast
    show "data_fd cd = fd" using k(2) by simp
    show "channels ep' new_id = Some cd" "last_channel_id ep' = new_id"
      using k(3) by (simp_all add: registered_def)
  }
  {
    assume a: "ok (epoll_add_result env)
          \<and> (\<exists>free. 1 \<le> free \<and> free \<le> INT32_MAX \<and> channels ep free = None)"
    then obtain free where f: "1 \<le> free" "free \<le> INT32_MAX" "channels ep free = None" by blast
    from rng have r: "0 \<le> last_channel_id ep" "last_channel_id ep \<le> INT32_MAX"
      by (simp_all add: counter_in_range_def)
    from loop_terminates [OF f r] obtain res where
      "OnNewChannelLocked_loop \<lparr>data_fd = fd, event_fd = new_event_fd env, channel_state = chan\<rparr> ep
         = Some res" by blast
    moreover from a obtain u where "epoll_add_result env = Ok u" by (cases "epoll_add_result env") auto
    ultimately show "\<exists>new_id cd ep' cs.
            OnNewChannelLocked env fd chan ep = Some (Ok (new_id, cd), ep', cs)"
      by (cases res; cases "fst res") (auto simp add: OnNewChannelLocked_def)
  }
qed

theorem channel_id_allocation_witness:
  "counter_in_range (sample_endpoint\<lparr>last_channel_id := 2147483646\<rparr>)
   \<and> run [DoOnNewChannel sample_register_env (Handle 7)]
        (sample_endpoint\<lparr>last_channel_id := 2147483646\<rparr>)
       = Some (registered (sample_channel 7) 2147483647 sample_endpoint)
   \<and> OnNewChannelLocked sample_register_env (Handle 8) None
        (registered (sample_channel 7) 2147483647 sample_endpoint)
       = Some (Ok (1, sample_channel 8),
               registered (sample_channel 8) 1
                 (registered (sample_channel 7) 2147483647 sample_endpoint),
               [EpollCtlAdd 8])
   \<and> channels (registered (sample_channel 7) 2147483647 sample_endpoint) 1 = None
   \<and> channels (registered (sample_channel 7) 2147483647 sample_endpoint) 2147483647
       = Some (sample_channel 7)
   \<and> ok (epoll_add_result sample_register_env)"
proof -
  have c: "counter_in_range (sample_endpoint\<lparr>last_channel_id := 2147483646\<rparr>)"
    by (simp add: counter_in_range_def INT32_MAX_def)
  have r: "run [DoOnNewChannel sample_register_env (Handle 7)]
        (sample_endpoint\<lparr>last_channel_id := 2147483646\<rparr>)
       = Some (registered (sample_channel 7) 2147483647 sample_endpoint)"
    by (simp add: sample_endpoint_def sample_register_env_def registered_def
      OnNewChannel_def OnNewChannelLocked_def OnNewChannelLocked_loop.simps sample_channel_def
      next_channel_id_def INT32_MAX_def emplace_def)
  have a: "OnNewChannelLocked sample_register_env (Handle 8) None
        (registered (sample_channel 7) 2147483647 sample_endpoint)
       = Some (Ok (1, sample_channel 8),
               registered (sample_channel 8) 1
                 (registered (sample_channel 7) 2147483647 sample_endpoint),
               [EpollCtlAdd 8])"
    by (simp add: sample_endpoint_def sample_register_env_def registered_def
      OnNewChannelLocked_def OnNewChannelLocked_loop.simps sample_channel_def
      next_channel_id_def INT32_MAX_def emplace_def)
  from channel_id_allocation [OF c r, of sample_register_env "Handle 8" None 1
      "sample_channel 8" "registered (sample_channel 8) 1
                 (registered (sample_channel 7) 2147483647 sample_endpoint)" "[EpollCtlAdd 8]"]
    c r a
  show ?thesis by (simp add: registered_def sample_register_env_def)
qed

section \<open>Receiving\<close>

lemma failed_shutdown:
  "ReceiveMessageForChannel_failed d ESHUTDOWN i m ep
     = (Ok (), fst (BuildCloseMessage i ep), snd (BuildCloseMessage i ep), [])"
  by (simp add: ReceiveMessageForChannel_failed_def case_prod_beta)

lemma BuildCloseMessage_result:
  "BuildCloseMessage i ep =
     (new_Message
        \<lparr>pid = - 1, tid = - 1, cid = i, mid = sint (next_message_id ep), euid = - 1,
         egid = - 1, op = CHANNEL_CLOSE, flags = 0, service = endpoint_service ep,
         channel = GetChannelState i ep, send_len = 0, recv_len = 0, fd_count = 0,
         impulse = replicate 32 0\<rparr>,
      ep\<lparr>next_message_id := next_message_id ep + 1\<rparr>)"
  by (simp add: BuildCloseMessage_def GetNextAvailableMessageId_def GetChannelState_def)

lemma failed_other:
  assumes "e \<noteq> ESHUTDOWN" "channels ep i = Some cd"
  shows "ReceiveMessageForChannel_failed d e i m ep
     = (ErrorStatus e, m,
        ep\<lparr>channel_fd_to_id := (channel_fd_to_id ep)(Get (data_fd cd) := None),
           channels := (channels ep)(i := None)\<rparr>,
        [EpollCtlDel (Get (data_fd cd))])"
  using assms
  by (simp add: ReceiveMessageForChannel_failed_def CloseChannel_def CloseChannelLocked_def Let_def)

text \<open>
  C3. A receive on a registered channel in which a read fails, the read of the header or
  the read of the payload (made when the declared length is positive and the request is
  not an impulse). If the error is \<^verbatim>\<open>ESHUTDOWN\<close>, the call succeeds, the message is a close
  message (opcode \<^verbatim>\<open>CHANNEL_CLOSE\<close>) for the id of the channel, both maps are as before and
  no socket is removed from the epoll set. With any other error the call returns that
  error, and before that \<^verbatim>\<open>CloseChannel\<close> has run: the channel is in neither map, and the
  last call made is the removal of its socket from the epoll set.
\<close>

theorem receive_read_failure:
  assumes reg: "channel_fd_to_id ep (Get channel_fd) = Some channel_id"
      "channels ep channel_id = Some cd" "Get (data_fd cd) = Get channel_fd"
    and fail: "header_result env = ErrorStatus e
        \<or> (\<exists>req. header_result env = Ok req \<and> 0 < rq_send_len req \<and> \<not> rq_is_impulse req
              \<and> payload_result env = ErrorStatus e)"
    and res: "ReceiveMessageForChannel env channel_fd message ep = (st, m', ep', cs)"
  shows "(e = ESHUTDOWN \<longrightarrow>
            st = Ok () \<and> op (info m') = CHANNEL_CLOSE \<and> cid (info m') = channel_id
          \<and> channels ep' = channels ep \<and> channel_fd_to_id ep' = channel_fd_to_id ep
          \<and> (\<forall>d. EpollCtlDel d \<notin> set cs))
    \<and> (e \<noteq> ESHUTDOWN \<longrightarrow>
            st = ErrorStatus e
          \<and> channels ep' channel_id = None \<and> channel_fd_to_id ep' (Get channel_fd) = None
          \<and> last cs = EpollCtlDel (Get channel_fd))"
proof -
  have id: "GetChannelId channel_fd ep = channel_id"
    using reg(1) by (simp add: GetChannelId_def)
  from fail show ?thesis
  proof
    assume h: "header_result env = ErrorStatus e"
    show ?thesis
    proof (cases "e = ESHUTDOWN")
      case True
      with h res show ?thesis
        by (auto simp add: ReceiveMessageForChannel_def id failed_shutdown
            BuildCloseMessage_result new_Message_def)
    next
      case False
      with h res reg(3) show ?thesis
        by (auto simp add: ReceiveMessageForChannel_def id failed_other [OF False reg(2)])
    qed
  next
    assume "\<exists>req. header_result env = Ok req \<and> 0 < rq_send_len req \<and> \<not> rq_is_impulse req
              \<and> payload_result env = ErrorStatus e"
    then obtain req where r: "header_result env = Ok req" "0 < rq_send_len req"
       "\<not> rq_is_impulse req" "payload_result env = ErrorStatus e" by blast
    let ?ep1 = "ep\<lparr>next_message_id := next_message_id ep + 1\<rparr>"
    have c1: "channels ?ep1 channel_id = Some cd" using reg(2) by simp
    show ?thesis
    proof (cases "e = ESHUTDOWN")
      case True
      with r res show ?thesis
        by (auto simp add: ReceiveMessageForChannel_def id failed_shutdown Let_def
            GetNextAvailableMessageId_def BuildCloseMessage_result new_Message_def)
    next
      case False
      with r res reg(3) show ?thesis
        by (auto simp add: ReceiveMessageForChannel_def id failed_other [OF False c1] Let_def
            GetNextAvailableMessageId_def)
    qed
  qed
qed


theorem receive_read_failure_witness:
  "channel_fd_to_id sample_open_endpoint (Get (Handle 7)) = Some 1
   \<and> channels sample_open_endpoint 1 = Some (sample_channel 7)
   \<and> fst (ReceiveMessageForChannel sample_receive_env (Handle 7) sample_message
            sample_open_endpoint) = ErrorStatus 104
   \<and> snd (snd (snd (ReceiveMessageForChannel sample_receive_env (Handle 7) sample_message
            sample_open_endpoint)))
       = [ReceiveHeader 7, ReceivePayload 7 100, EpollCtlDel 7]
   \<and> channels (fst (snd (snd (ReceiveMessageForChannel sample_receive_env (Handle 7)
            sample_message sample_open_endpoint)))) 1 = None
   \<and> channel_fd_to_id (fst (snd (snd (ReceiveMessageForChannel sample_receive_env (Handle 7)
            sample_message sample_open_endpoint)))) 7 = None"
proof -
  obtain st m' ep' cs where
    r: "ReceiveMessageForChannel sample_receive_env (Handle 7) sample_message
          sample_open_endpoint = (st, m', ep', cs)"
    by (cases "ReceiveMessageForChannel sample_receive_env (Handle 7) sample_message
          sample_open_endpoint")
  have cs: "cs = [ReceiveHeader 7, ReceivePayload 7 100, EpollCtlDel 7]"
    using r
    by (simp add: ReceiveMessageForChannel_def sample_receive_env_def sample_request_def
        empty_request_def sample_open_endpoint_def registered_def sample_endpoint_def sample_channel_def
        emplace_def GetChannelId_def GetNextAvailableMessageId_def Let_def
        ReceiveMessageForChannel_failed_def ESHUTDOWN_def CloseChannel_def
        CloseChannelLocked_def)
  have a: "channel_fd_to_id sample_open_endpoint (Get (Handle 7)) = Some 1"
    "channels sample_open_endpoint 1 = Some (sample_channel 7)"
    "Get (data_fd (sample_channel 7)) = Get (Handle 7)"
    by (simp_all add: sample_open_endpoint_def registered_def sample_endpoint_def
        sample_channel_def emplace_def)
  have f: "header_result sample_receive_env = ErrorStatus 104
        \<or> (\<exists>req. header_result sample_receive_env = Ok req \<and> 0 < rq_send_len req
              \<and> \<not> rq_is_impulse req \<and> payload_result sample_receive_env = ErrorStatus 104)"
    by (simp add: sample_receive_env_def sample_request_def empty_request_def)
  from receive_read_failure [OF a f r] a cs r show ?thesis
    by (simp add: ESHUTDOWN_def)
qed

text \<open>
  C6. A receive whose header has the impulse flag set, whatever length it declares. The
  calls made begin with the read of the header followed at once by the re-arming of the
  socket, and no read of a payload is among them. The message carries the reserved id
  \<^verbatim>\<open>IMPULSE_MESSAGE_ID\<close> and the counter of message ids is not advanced (unless the re-arming
  itself reports \<^verbatim>\<open>ESHUTDOWN\<close>, which replaces the message by a close message). When the
  re-arming succeeds the call succeeds with exactly these two calls, the message holds
  the header and no payload, and the table is as before.
\<close>

theorem receive_impulse:
  assumes "header_result env = Ok req" and "rq_is_impulse req"
    and "ReceiveMessageForChannel env channel_fd message ep = (st, m', ep', cs)"
  shows "take 2 cs = [ReceiveHeader (Get channel_fd), EpollCtlMod (Get channel_fd)]
    \<and> (\<forall>fd n. ReceivePayload fd n \<notin> set cs)
    \<and> (reenable_result env \<noteq> ErrorStatus ESHUTDOWN \<longrightarrow>
          mid (info m') = IMPULSE_MESSAGE_ID \<and> next_message_id ep' = next_message_id ep)
    \<and> (ok (reenable_result env) \<longrightarrow>
          st = Ok () \<and> cs = [ReceiveHeader (Get channel_fd), EpollCtlMod (Get channel_fd)]
        \<and> request (state m') = req \<and> request_data (state m') = []
        \<and> channels ep' = channels ep \<and> channel_fd_to_id ep' = channel_fd_to_id ep)"
proof (cases "reenable_result env")
  case (Ok u)
  with assms show ?thesis
    by (auto simp add: ReceiveMessageForChannel_def Let_def ReenableEpollEvent_def
        new_Message_def AllocateMessageState_def)
next
  case (ErrorStatus e)
  show ?thesis
  proof (cases "e = ESHUTDOWN")
    case True
    with ErrorStatus assms show ?thesis
      by (auto simp add: ReceiveMessageForChannel_def Let_def ReenableEpollEvent_def
          failed_shutdown)
  next
    case False
    with ErrorStatus assms show ?thesis
      by (auto simp add: ReceiveMessageForChannel_def Let_def ReenableEpollEvent_def
          ReceiveMessageForChannel_failed_def CloseChannel_def CloseChannelLocked_def
          new_Message_def split: option.splits)
  qed
qed

theorem receive_impulse_witness:
  "header_result sample_impulse_env
     = Ok (sample_request\<lparr>rq_send_len := 100, rq_is_impulse := True\<rparr>)
   \<and> rq_is_impulse (sample_request\<lparr>rq_send_len := 100, rq_is_impulse := True\<rparr>)
   \<and> fst (ReceiveMessageForChannel sample_impulse_env (Handle 7) sample_message
            sample_open_endpoint) = Ok ()
   \<and> snd (snd (snd (ReceiveMessageForChannel sample_impulse_env (Handle 7) sample_message
            sample_open_endpoint))) = [ReceiveHeader 7, EpollCtlMod 7]
   \<and> mid (info (fst (snd (ReceiveMessageForChannel sample_impulse_env (Handle 7)
            sample_message sample_open_endpoint)))) = IMPULSE_MESSAGE_ID
   \<and> send_len (info (fst (snd (ReceiveMessageForChannel sample_impulse_env (Handle 7)
            sample_message sample_open_endpoint)))) = 100"
proof -
  obtain st m' ep' cs where
    r: "ReceiveMessageForChannel sample_impulse_env (Handle 7) sample_message
          sample_open_endpoint = (st, m', ep', cs)"
    by (cases "ReceiveMessageForChannel sample_impulse_env (Handle 7) sample_message
          sample_open_endpoint")
  have h: "header_result sample_impulse_env
     = Ok (sample_request\<lparr>rq_send_len := 100, rq_is_impulse := True\<rparr>)"
     "rq_is_impulse (sample_request\<lparr>rq_send_len := 100, rq_is_impulse := True\<rparr>)"
    by (simp_all add: sample_impulse_env_def)
  have s: "send_len (info m') = 100"
    using r by (auto simp add: ReceiveMessageForChannel_def sample_impulse_env_def Let_def
        ReenableEpollEvent_def new_Message_def)
  from receive_impulse [OF h r] h r s show ?thesis
    by (simp add: sample_impulse_env_def)
qed

section \<open>Replying\<close>

text \<open>
  C2, as the code has it. For a message with opcode \<^verbatim>\<open>CHANNEL_OPEN\<close> on a channel that is in
  the table with a valid socket and a valid event descriptor, \<^verbatim>\<open>MessageReply\<close> with a
  non-negative return code clears the queued response payload, appends the event descriptor
  of the channel to the file references of the response, and completes the response header
  with the index of that reference as return code and with length 0; the header is the
  first thing sent, on the socket of the channel, and no payload is sent. The channel is
  not closed: the endpoint is unchanged. The file references and the channel references
  pushed on the message before stay in the response as they were, so the event descriptor
  is the single reference of the reply exactly when neither a file reference nor a channel
  reference was pushed before: then the header sent holds this one file reference, no
  channel reference, and the return code 0.
\<close>

theorem reply_channel_open:
  assumes "op (info message) = CHANNEL_OPEN" and "0 \<le> return_code"
    and "channels ep (cid (info message)) = Some cd"
    and "IsValid (data_fd cd)" and "IsValid (event_fd cd)"
    and "MessageReply env message return_code ep = (st, m', ep', cs)"
  shows "response_data (state m') = []
    \<and> rs_file_descriptors (response (state m'))
        = rs_file_descriptors (response (state message)) @ [event_fd cd]
    \<and> rs_ret_code (response (state m'))
        = int (length (rs_file_descriptors (response (state message))))
    \<and> rs_file_descriptors (response (state m')) ! nat (rs_ret_code (response (state m')))
        = event_fd cd
    \<and> rs_recv_len (response (state m')) = 0
    \<and> hd cs = SendHeader (Get (data_fd cd)) (response (state m'))
    \<and> (\<forall>fd bytes. SendPayload fd bytes \<notin> set cs)
    \<and> (\<forall>fd. EpollCtlDel fd \<notin> set cs)
    \<and> ep' = ep
    \<and> (rs_file_descriptors (response (state message)) = [] \<longrightarrow>
          rs_file_descriptors (response (state m')) = [event_fd cd]
        \<and> rs_ret_code (response (state m')) = 0)
    \<and> rs_channels (response (state m')) = rs_channels (response (state message))
    \<and> length (rs_file_descriptors (response (state m')))
          + length (rs_channels (response (state m')))
        = Suc (length (rs_file_descriptors (response (state message)))
          + length (rs_channels (response (state message))))
    \<and> (rs_file_descriptors (response (state message)) = []
          \<and> rs_channels (response (state message)) = [] \<longrightarrow>
          hd cs = SendHeader (Get (data_fd cd))
            \<lparr>rs_ret_code = 0, rs_recv_len = 0, rs_file_descriptors = [event_fd cd],
             rs_channels = []\<rparr>)"
proof -
  have ne: "CHANNEL_OPEN \<noteq> CHANNEL_CLOSE" by (simp add: CHANNEL_OPEN_def CHANNEL_CLOSE_def)
  from assms ne show ?thesis
    by (auto simp add: MessageReply_def MessageReply_send_def Let_def GetChannelSocketFd_def
        GetChannelEventFd_def MessageState_PushFileHandle_def ReenableEpollEvent_def
        nth_append)
qed

theorem reply_channel_open_witness:
  "op (info sample_open_message) = CHANNEL_OPEN \<and> (0::int) \<le> 5
   \<and> channels sample_open_endpoint (cid (info sample_open_message)) = Some (sample_channel 7)
   \<and> IsValid (data_fd (sample_channel 7)) \<and> IsValid (event_fd (sample_channel 7))
   \<and> fst (MessageReply sample_reply_env sample_open_message 5 sample_open_endpoint) = Ok ()
   \<and> snd (snd (snd (MessageReply sample_reply_env sample_open_message 5 sample_open_endpoint)))
       = [SendHeader 7 \<lparr>rs_ret_code = 0, rs_recv_len = 0, rs_file_descriptors = [Handle 20],
                         rs_channels = []\<rparr>,
          EpollCtlMod 7]
   \<and> fst (snd (snd (MessageReply sample_reply_env sample_open_message 5 sample_open_endpoint)))
       = sample_open_endpoint"
proof -
  obtain st m' ep' cs where
    r: "MessageReply sample_reply_env sample_open_message 5 sample_open_endpoint
          = (st, m', ep', cs)"
    by (cases "MessageReply sample_reply_env sample_open_message 5 sample_open_endpoint")
  have a: "op (info sample_open_message) = CHANNEL_OPEN" "(0::int) \<le> 5"
    "channels sample_open_endpoint (cid (info sample_open_message)) = Some (sample_channel 7)"
    "IsValid (data_fd (sample_channel 7))" "IsValid (event_fd (sample_channel 7))"
    by (simp_all add: sample_open_message_def new_Message_def sample_info_def
        sample_open_endpoint_def registered_def sample_channel_def IsValid_def)
  have e: "st = Ok ()" "cs = [SendHeader 7 \<lparr>rs_ret_code = 0, rs_recv_len = 0,
       rs_file_descriptors = [Handle 20], rs_channels = []\<rparr>, EpollCtlMod 7]"
    using r
    by (simp_all add: MessageReply_def MessageReply_send_def Let_def GetChannelSocketFd_def
        GetChannelEventFd_def MessageState_PushFileHandle_def ReenableEpollEvent_def
        sample_open_message_def new_Message_def sample_info_def sample_reply_env_def
        sample_open_endpoint_def registered_def sample_channel_def IsValid_def
        CHANNEL_OPEN_def CHANNEL_CLOSE_def AllocateMessageState_def empty_response_def)
  from reply_channel_open [OF a r] a e r show ?thesis by simp
qed

text \<open>
  C2, as the spec states it, fails: the event descriptor is not always the single reply
  reference. A handler that has pushed the file handle 30 before it replies to
  \<^verbatim>\<open>CHANNEL_OPEN\<close> sends two references, and the return code is the index 1.
\<close>

theorem reply_channel_open_single_reference_counterexample:
  "op (info sample_open_message_pushed) = CHANNEL_OPEN
   \<and> rs_file_descriptors (response (state (fst (snd
        (MessageReply sample_reply_env sample_open_message_pushed 0 sample_open_endpoint)))))
      = [Handle 30, Handle 20]
   \<and> rs_ret_code (response (state (fst (snd
        (MessageReply sample_reply_env sample_open_message_pushed 0 sample_open_endpoint)))))
      = 1"
  by (simp add: MessageReply_def MessageReply_send_def Let_def GetChannelSocketFd_def
        GetChannelEventFd_def MessageState_PushFileHandle_def ReenableEpollEvent_def
        sample_open_message_pushed_def
        sample_open_message_def new_Message_def sample_info_def sample_reply_env_def
        sample_open_endpoint_def registered_def sample_channel_def IsValid_def
        CHANNEL_OPEN_def CHANNEL_CLOSE_def AllocateMessageState_def empty_response_def)

section \<open>Accepting a connection\<close>

text \<open>
  C5. When the listening socket (descriptor 3 of the sample endpoint) is ready,
  \<^verbatim>\<open>MessageReceive\<close> re-arms it only when \<^verbatim>\<open>AcceptConnection\<close> succeeds. When \<^verbatim>\<open>accept4\<close> fails
  (here with \<^verbatim>\<open>EMFILE\<close>, 24) the call returns the error after the calls \<^verbatim>\<open>epoll_wait\<close> and
  \<^verbatim>\<open>accept4\<close> alone; when the first read on the accepted socket fails (here with
  \<^verbatim>\<open>ECONNRESET\<close>, 104) it returns the error after closing the new channel. In both the
  listening socket, registered one-shot, is not re-armed. On the path where everything
  succeeds, one connection is accepted, credentials are enabled on it, it is registered,
  its header is read, and the listening socket is re-armed last.
\<close>

theorem accept_failure_leaves_listening_socket_disarmed:
  "MessageReceive
      (sample_wait_env\<lparr>wait_accept := sample_accept_env\<lparr>accept4_result := ErrorStatus 24\<rparr>\<rparr>)
      sample_message sample_endpoint
     = Some (ErrorStatus 24, sample_message, sample_endpoint, [EpollWait, Accept4 3])
   \<and> status_and_calls (MessageReceive
      (sample_wait_env\<lparr>wait_accept := sample_accept_env\<lparr>accept_receive :=
          sample_receive_env\<lparr>header_result := ErrorStatus 104\<rparr>\<rparr>\<rparr>)
      sample_message sample_endpoint)
     = Some (ErrorStatus 104,
         [EpollWait, Accept4 3, SetSockOptPassCred 7, EpollCtlAdd 7, ReceiveHeader 7,
          EpollCtlDel 7])
   \<and> status_and_calls (MessageReceive sample_wait_env sample_message sample_endpoint)
     = Some (Ok (),
         [EpollWait, Accept4 3, SetSockOptPassCred 7, EpollCtlAdd 7, ReceiveHeader 7,
          EpollCtlMod 3])"
  by (simp add: MessageReceive_def AcceptConnection_def OnNewChannel_def OnNewChannelLocked_def
      OnNewChannelLocked_loop.simps next_channel_id_def INT32_MAX_def emplace_def
      ReceiveMessageForChannel_def ReceiveMessageForChannel_failed_def CloseChannel_def
      CloseChannelLocked_def GetChannelId_def GetNextAvailableMessageId_def
      ReenableEpollEvent_def ESHUTDOWN_def Let_def status_and_calls_def
      sample_wait_env_def sample_accept_env_def sample_receive_env_def sample_register_env_def
      sample_endpoint_def sample_request_def empty_request_def)

end
